theory Spec2Isabelle
  imports Complex_Main "HOL-Library.AList" "HOL-Library.Sublist"
begin

section \<open>Python primitives used by the valuation engine\<close>

text \<open>
  Python floats and \<open>Decimal\<close> values are modelled by exact reals: rounding of the
  binary floating-point format, infinities and NaN are outside this model. Python's
  unbounded integers are \<open>int\<close>. A naive \<open>datetime\<close> is the number of microseconds
  since a fixed origin, so that subtracting two of them gives a \<open>timedelta\<close>.
  The functions of Python's \<open>math\<close> module are the real functions of HOL, with the
  \<open>ValueError\<close> they raise outside their domain written out.
\<close>

type_synonym datetime = int

type_synonym timedelta = int

definition microseconds_per_day :: int where
  "microseconds_per_day = 86400000000"

definition timedelta_of_days :: "int \<Rightarrow> timedelta" where
  "timedelta_of_days d = d * microseconds_per_day"

definition timedelta_days :: "timedelta \<Rightarrow> int" where
  \<comment> \<open>The \<open>.days\<close> attribute: a timedelta is normalised with a non-negative
      remainder, so the day count is the floor.\<close>
  "timedelta_days td = td div microseconds_per_day"

definition py_int :: "real \<Rightarrow> int" where
  \<comment> \<open>\<open>int(x)\<close> on a float truncates toward zero.\<close>
  "py_int x = (if 0 \<le> x then \<lfloor>x\<rfloor> else \<lceil>x\<rceil>)"

definition truthy_int :: "int option \<Rightarrow> bool" where
  \<comment> \<open>Truth value of an optional integer column: \<open>None\<close> and \<open>0\<close> are false.\<close>
  "truthy_int v = (case v of None \<Rightarrow> False | Some n \<Rightarrow> n \<noteq> 0)"

definition truthy_float :: "real option \<Rightarrow> bool" where
  \<comment> \<open>Truth value of an optional float column: \<open>None\<close> and \<open>0.0\<close> are false.\<close>
  "truthy_float v = (case v of None \<Rightarrow> False | Some x \<Rightarrow> x \<noteq> 0)"

datatype error = ZeroDivisionError | ValueError | KeyError

definition py_div :: "real \<Rightarrow> real \<Rightarrow> error + real" where
  \<comment> \<open>True division \<open>a / b\<close>.\<close>
  "py_div a b = (if b = 0 then Inl ZeroDivisionError else Inr (a / b))"

section \<open>Data model (models/database.py)\<close>

record Property =
  prop_id :: "int option"
  address :: string
  property_type :: "string option"
  square_footage :: "int option"
  bedrooms :: "int option"
  bathrooms :: "real option"
  year_built :: "int option"
  lot_size :: "int option"
  latitude :: "real option"
  longitude :: "real option"

record PropertySale =
  sale_id :: int
  property_id :: int
  sale_price :: real
  sale_date :: datetime
  days_on_market :: "int option"
  sale_type :: "string option"

section \<open>Adjustment calculator (core/adjustment\_calculator.py)\<close>

text \<open>The entries of \<open>self.adjustment_rates\<close> that the calculator reads.\<close>

definition price_per_sqft_base :: real where
  "price_per_sqft_base = 150"

definition bedroom_adjustment :: real where
  "bedroom_adjustment = 15000"

definition bathroom_adjustment :: real where
  "bathroom_adjustment = 8000"

definition age_adjustment_per_year :: real where
  "age_adjustment_per_year = 500"

definition calculate_size_adjustment :: "Property \<Rightarrow> Property \<Rightarrow> real" where
  "calculate_size_adjustment subject comparable =
     (if \<not> (truthy_int (square_footage subject) \<and> truthy_int (square_footage comparable))
      then 0
      else
        let ss = the (square_footage subject);
            cs = the (square_footage comparable);
            size_difference = ss - cs;
            price_per_sqft =
              (if cs < 1500 then price_per_sqft_base * (12 / 10)
               else if cs > 3000 then price_per_sqft_base * (8 / 10)
               else price_per_sqft_base)
        in of_int size_difference * price_per_sqft)"

definition calculate_bedroom_adjustment :: "Property \<Rightarrow> Property \<Rightarrow> real" where
  "calculate_bedroom_adjustment subject comparable =
     (if \<not> (truthy_int (bedrooms subject) \<and> truthy_int (bedrooms comparable))
      then 0
      else
        let bedroom_difference = the (bedrooms subject) - the (bedrooms comparable)
        in of_int bedroom_difference * bedroom_adjustment)"

definition calculate_bathroom_adjustment :: "Property \<Rightarrow> Property \<Rightarrow> real" where
  "calculate_bathroom_adjustment subject comparable =
     (if \<not> (truthy_float (bathrooms subject) \<and> truthy_float (bathrooms comparable))
      then 0
      else
        let bathroom_difference = the (bathrooms subject) - the (bathrooms comparable)
        in bathroom_difference * bathroom_adjustment)"

definition calculate_age_adjustment :: "Property \<Rightarrow> Property \<Rightarrow> real" where
  "calculate_age_adjustment subject comparable =
     (if \<not> (truthy_int (year_built subject) \<and> truthy_int (year_built comparable))
      then 0
      else
        let age_difference = the (year_built subject) - the (year_built comparable);
            age_difference = max (- 20) (min 20 age_difference)
        in of_int age_difference * age_adjustment_per_year)"

definition calculate_lot_size_adjustment :: "Property \<Rightarrow> Property \<Rightarrow> real" where
  "calculate_lot_size_adjustment subject comparable =
     (if \<not> (truthy_int (lot_size subject) \<and> truthy_int (lot_size comparable))
      then 0
      else
        let lot_difference = the (lot_size subject) - the (lot_size comparable)
        in if \<bar>lot_difference\<bar> \<le> 5000 then of_int (lot_difference * 5)
           else
             let base_adjustment = 5000 * 5 * (if lot_difference > 0 then 1 else - 1);
                 remaining_difference = \<bar>lot_difference\<bar> - 5000;
                 additional_adjustment =
                   remaining_difference * 2 * (if lot_difference > 0 then 1 else - 1)
             in of_int (base_adjustment + additional_adjustment))"

definition calculate_time_adjustment :: "datetime \<Rightarrow> PropertySale \<Rightarrow> real" where
  \<comment> \<open>The first argument is the value \<open>datetime.now()\<close> returns during the call.\<close>
  "calculate_time_adjustment now comparable_sale =
     (let days_ago = timedelta_days (now - sale_date comparable_sale)
      in if days_ago \<le> 90 then 0
         else
           let quarters_old = of_int (days_ago - 90) / 90;
               appreciation_rate = (1 / 100) * quarters_old;
               appreciation_rate = min (2 / 100) appreciation_rate
           in sale_price comparable_sale * appreciation_rate)"

text \<open>
  The adjustment dictionary is an association list in insertion order. The state of the
  body of \<open>calculate_adjustments\<close> is the pair of the dictionary and the running
  \<open>total_adjustment\<close>; \<open>record_adjustment\<close> is one of its six
  \<open>if adj != 0: ...\<close> blocks.
\<close>

type_synonym adjustments = "(string \<times> real) list"

definition record_adjustment ::
  "string \<Rightarrow> real \<Rightarrow> adjustments \<times> real \<Rightarrow> adjustments \<times> real" where
  "record_adjustment key adj st =
     (if adj \<noteq> 0 then (AList.update key adj (fst st), snd st + adj) else st)"

definition calculate_adjustments ::
  "datetime \<Rightarrow> Property \<Rightarrow> Property \<Rightarrow> PropertySale \<Rightarrow> adjustments" where
  "calculate_adjustments now subject_property comparable_property comparable_sale =
     (let st = ([], 0);
          st = record_adjustment ''size_adjustment''
                 (calculate_size_adjustment subject_property comparable_property) st;
          st = record_adjustment ''bedroom_adjustment''
                 (calculate_bedroom_adjustment subject_property comparable_property) st;
          st = record_adjustment ''bathroom_adjustment''
                 (calculate_bathroom_adjustment subject_property comparable_property) st;
          st = record_adjustment ''age_adjustment''
                 (calculate_age_adjustment subject_property comparable_property) st;
          st = record_adjustment ''lot_size_adjustment''
                 (calculate_lot_size_adjustment subject_property comparable_property) st;
          st = record_adjustment ''time_adjustment''
                 (calculate_time_adjustment now comparable_sale) st
      in AList.update ''total'' (of_int (py_int (snd st))) (fst st))"

definition calculate_adjusted_price :: "real \<Rightarrow> adjustments \<Rightarrow> real" where
  "calculate_adjusted_price comparable_sale_price adjustments =
     comparable_sale_price + (case map_of adjustments ''total'' of None \<Rightarrow> 0 | Some t \<Rightarrow> t)"

definition named_entries :: "adjustments \<Rightarrow> adjustments" where
  \<comment> \<open>The entries of an adjustment set other than \<open>total\<close>.\<close>
  "named_entries adj = filter (\<lambda>kv. fst kv \<noteq> ''total'') adj"

section \<open>Comparable finder (core/comparable\_finder.py)\<close>

definition math_radians :: "real \<Rightarrow> real" where
  "math_radians d = d * pi / 180"

definition math_sqrt :: "real \<Rightarrow> error + real" where
  \<comment> \<open>\<open>math.sqrt\<close> raises \<open>ValueError\<close> on a negative argument.\<close>
  "math_sqrt x = (if x < 0 then Inl ValueError else Inr (sqrt x))"

definition math_asin :: "real \<Rightarrow> error + real" where
  \<comment> \<open>\<open>math.asin\<close> raises \<open>ValueError\<close> outside \<open>[-1, 1]\<close>.\<close>
  "math_asin x = (if x < - 1 \<or> 1 < x then Inl ValueError else Inr (arcsin x))"

definition haversine_a :: "real \<Rightarrow> real \<Rightarrow> real \<Rightarrow> real \<Rightarrow> real" where
  \<comment> \<open>The local \<open>a\<close> of \<open>_calculate_distance\<close>, on arguments already in radians.\<close>
  "haversine_a lat1 lon1 lat2 lon2 =
     (let dlat = lat2 - lat1;
          dlon = lon2 - lon1
      in (sin (dlat / 2))\<^sup>2 + cos lat1 * cos lat2 * (sin (dlon / 2))\<^sup>2)"

definition calculate_distance :: "real \<Rightarrow> real \<Rightarrow> real \<Rightarrow> real \<Rightarrow> error + real" where
  "calculate_distance lat1 lon1 lat2 lon2 =
     (let lat1 = math_radians lat1;
          lon1 = math_radians lon1;
          lat2 = math_radians lat2;
          lon2 = math_radians lon2;
          a = haversine_a lat1 lon1 lat2 lon2
      in case math_sqrt a of
           Inl e \<Rightarrow> Inl e
         | Inr sq \<Rightarrow>
             (case math_asin sq of
                Inl e \<Rightarrow> Inl e
              | Inr angle \<Rightarrow> let c = 2 * angle; r = 3956 in Inr (c * r)))"

definition calculate_similarity_score :: "Property \<Rightarrow> Property \<Rightarrow> error + real" where
  "calculate_similarity_score subject comparable =
     (case
        (if truthy_int (square_footage subject) \<and> truthy_int (square_footage comparable)
         then
           let size_diff = \<bar>the (square_footage subject) - the (square_footage comparable)\<bar>;
               max_size = max (the (square_footage subject)) (the (square_footage comparable))
           in case py_div (of_int size_diff) (of_int max_size) of
                Inl e \<Rightarrow> Inl e
              | Inr q \<Rightarrow> let size_similarity = max 0 (1 - q) in Inr (0 + size_similarity * 30)
         else Inr 0)
      of
        Inl e \<Rightarrow> Inl e
      | Inr score \<Rightarrow>
          let score =
                (if truthy_int (bedrooms subject) \<and> truthy_int (bedrooms comparable)
                 then
                   let bedroom_diff = \<bar>the (bedrooms subject) - the (bedrooms comparable)\<bar>;
                       bedroom_similarity = max 0 (1 - of_int bedroom_diff / 5)
                   in score + bedroom_similarity * 15
                 else score);
              score =
                (if truthy_float (bathrooms subject) \<and> truthy_float (bathrooms comparable)
                 then
                   let bathroom_diff = \<bar>the (bathrooms subject) - the (bathrooms comparable)\<bar>;
                       bathroom_similarity = max 0 (1 - bathroom_diff / 3)
                   in score + bathroom_similarity * 15
                 else score);
              score =
                (if truthy_int (year_built subject) \<and> truthy_int (year_built comparable)
                 then
                   let age_diff = \<bar>the (year_built subject) - the (year_built comparable)\<bar>;
                       age_similarity = max 0 (1 - of_int age_diff / 50)
                   in score + age_similarity * 20
                 else score)
          in if truthy_float (latitude subject) \<and> truthy_float (longitude subject) \<and>
                truthy_float (latitude comparable) \<and> truthy_float (longitude comparable)
             then
               case calculate_distance (the (latitude subject)) (the (longitude subject))
                      (the (latitude comparable)) (the (longitude comparable)) of
                 Inl e \<Rightarrow> Inl e
               | Inr distance \<Rightarrow>
                   let distance_similarity = max 0 (1 - distance / 10)
                   in Inr (score + distance_similarity * 20)
             else Inr score)"

text \<open>
  The database is the list of joined \<open>(Property, PropertySale)\<close> rows, in the order
  the query returns them. \<open>query_filter\<close> is the \<open>filter(...)\<close> clause of the query:
  a comparison with SQL \<open>NULL\<close> does not select the row.
\<close>

type_synonym db = "(Property \<times> PropertySale) list"

type_synonym scored_comp = "Property \<times> PropertySale \<times> real"

definition comp_score :: "scored_comp \<Rightarrow> real" where
  \<comment> \<open>The sort key \<open>lambda x: x[2]\<close>.\<close>
  "comp_score x = snd (snd x)"

definition query_filter :: "datetime \<Rightarrow> Property \<Rightarrow> Property \<times> PropertySale \<Rightarrow> bool" where
  "query_filter now subject_property row =
     (let cutoff_date = now - timedelta_of_days 180
      in sale_date (snd row) \<ge> cutoff_date \<and>
         sale_type (snd row) = Some ''sold'' \<and>
         (if truthy_int (prop_id subject_property)
          then (case prop_id (fst row) of
                  None \<Rightarrow> False
                | Some i \<Rightarrow> i \<noteq> the (prop_id subject_property))
          else True))"

fun score_comps :: "Property \<Rightarrow> db \<Rightarrow> error + scored_comp list" where
  \<comment> \<open>The loop \<open>for prop, sale in potential_comps\<close>.\<close>
  "score_comps subject_property [] = Inr []"
| "score_comps subject_property (row # rest) =
     (case calculate_similarity_score subject_property (fst row) of
        Inl e \<Rightarrow> Inl e
      | Inr score \<Rightarrow>
          (case score_comps subject_property rest of
             Inl e \<Rightarrow> Inl e
           | Inr scored \<Rightarrow> Inr ((fst row, snd row, score) # scored)))"

definition sort_reverse :: "('a \<Rightarrow> real) \<Rightarrow> 'a list \<Rightarrow> 'a list" where
  \<comment> \<open>\<open>list.sort(key=f, reverse=True)\<close>: descending by key, and stable (elements with
      equal keys keep their original order).\<close>
  "sort_reverse f xs = sort_key (\<lambda>x. - f x) xs"

definition slice_to :: "int \<Rightarrow> 'a list \<Rightarrow> 'a list" where
  \<comment> \<open>The slice \<open>xs[:n]\<close>; a negative \<open>n\<close> counts from the end.\<close>
  "slice_to n xs = (if 0 \<le> n then take (nat n) xs else take (length xs - nat (- n)) xs)"

definition find_comparables ::
  "datetime \<Rightarrow> db \<Rightarrow> Property \<Rightarrow> int \<Rightarrow> error + scored_comp list" where
  "find_comparables now database subject_property max_results =
     (let potential_comps = filter (query_filter now subject_property) database
      in case score_comps subject_property potential_comps of
           Inl e \<Rightarrow> Inl e
         | Inr scored_comps \<Rightarrow> Inr (slice_to max_results (sort_reverse comp_score scored_comps)))"

section \<open>Valuation service (data/property\_service.py)\<close>

datatype date_text =
  Date_literal string
  | Date_strftime datetime  \<comment> \<open>\<open>d.strftime("%Y-%m-%d")\<close>, kept symbolic\<close>

record comparable_details =
  info_bedrooms :: "int option"
  info_bathrooms :: "real option"
  info_year_built :: "int option"
  info_lot_size :: "int option"
  info_days_on_market :: "int option"

text \<open>
  One element of the \<open>comparables\<close> list of the result. The keys
  \<open>bedrooms\<close>, \<open>bathrooms\<close>, \<open>year_built\<close>, \<open>lot_size\<close> and
  \<open>days_on_market\<close> exist only in the entries built from real comparables:
  \<open>info_details\<close> is \<open>None\<close> in the synthetic entry of the fallback.
\<close>

record comparable_info =
  info_address :: string
  info_sale_price :: real
  info_sale_date :: date_text
  info_square_feet :: "int option"
  info_details :: "comparable_details option"
  info_similarity_score :: real
  info_adjustments :: adjustments
  info_adjusted_price :: int

record estimate =
  low :: int
  high :: int
  most_likely :: int

record adjustment_summary =
  average_adjustment :: int
  adjustment_range_min :: real
  adjustment_range_max :: real

record analysis =
  estimated_value :: estimate
  comparables :: "comparable_info list"
  confidence_score :: real
  summary :: "adjustment_summary option"

definition py_round2 :: "real \<Rightarrow> real" where
  \<comment> \<open>\<open>round(x, 2)\<close>: to the nearest multiple of 0.01, a tie going to the even one.\<close>
  "py_round2 x =
     (let y = x * 100;
          f = \<lfloor>y\<rfloor>;
          d = y - of_int f
      in (if d < 1 / 2 then of_int f
          else if 1 / 2 < d then of_int (f + 1)
          else if even f then of_int f
          else of_int (f + 1)) / 100)"

definition fallback_analysis :: "Property \<Rightarrow> analysis" where
  \<comment> \<open>The dictionary returned when no comparables are found.\<close>
  "fallback_analysis subject_property =
     \<lparr>estimated_value = \<lparr>low = 350000, high = 450000, most_likely = 400000\<rparr>,
      comparables =
        [\<lparr>info_address = ''No comparables found - using estimate'',
          info_sale_price = 400000,
          info_sale_date = Date_literal ''2023-10-15'',
          info_square_feet =
            (if truthy_int (square_footage subject_property)
             then square_footage subject_property else Some 2000),
          info_details = None,
          info_similarity_score = 0,
          info_adjustments = [(''total'', 0)],
          info_adjusted_price = 400000\<rparr>],
      confidence_score = 3 / 10,
      summary = None\<rparr>"

definition process_comparable ::
  "datetime \<Rightarrow> Property \<Rightarrow> scored_comp \<Rightarrow> comparable_info \<times> real" where
  \<comment> \<open>One round of the loop over the comparables: the entry appended to
      \<open>comparable_data\<close> and the price appended to \<open>adjusted_prices\<close>.\<close>
  "process_comparable now subject_property entry =
     (let prop = fst entry;
          sale = fst (snd entry);
          similarity_score = snd (snd entry);
          adjustments = calculate_adjustments now subject_property prop sale;
          adjusted_price = calculate_adjusted_price (sale_price sale) adjustments
      in (\<lparr>info_address = address prop,
           info_sale_price = sale_price sale,
           info_sale_date = Date_strftime (sale_date sale),
           info_square_feet = square_footage prop,
           info_details =
             Some \<lparr>info_bedrooms = bedrooms prop,
                   info_bathrooms = bathrooms prop,
                   info_year_built = year_built prop,
                   info_lot_size = lot_size prop,
                   info_days_on_market = days_on_market sale\<rparr>,
           info_similarity_score = py_round2 similarity_score,
           info_adjustments = adjustments,
           info_adjusted_price = py_int adjusted_price\<rparr>,
          adjusted_price))"

definition estimate_value :: "real list \<Rightarrow> estimate" where
  \<comment> \<open>The block \<open>if adjusted_prices: ... else: ...\<close>.\<close>
  "estimate_value adjusted_prices =
     (case adjusted_prices of
        [] \<Rightarrow> \<lparr>low = 350000, high = 450000, most_likely = 400000\<rparr>
      | p # ps \<Rightarrow>
          let avg_price = sum_list adjusted_prices / of_nat (length adjusted_prices);
              low_estimate = fold min ps p * (98 / 100);
              high_estimate = fold max ps p * (102 / 100)
          in \<lparr>low = py_int low_estimate,
              high = py_int high_estimate,
              most_likely = py_int avg_price\<rparr>)"

definition adjustment_total :: "comparable_info \<Rightarrow> error + real" where
  \<comment> \<open>\<open>comp["adjustments"]["total"]\<close>.\<close>
  "adjustment_total entry =
     (case map_of (info_adjustments entry) ''total'' of
        None \<Rightarrow> Inl KeyError
      | Some t \<Rightarrow> Inr t)"

fun sum_adjustment_ratios :: "real \<Rightarrow> comparable_info list \<Rightarrow> error + real" where
  \<comment> \<open>\<open>sum(abs(comp["adjustments"]["total"]) / comp["sale_price"] for comp in ...)\<close>,
      from the accumulator given.\<close>
  "sum_adjustment_ratios acc [] = Inr acc"
| "sum_adjustment_ratios acc (entry # rest) =
     (case adjustment_total entry of
        Inl e \<Rightarrow> Inl e
      | Inr t \<Rightarrow>
          (case py_div \<bar>t\<bar> (info_sale_price entry) of
             Inl e \<Rightarrow> Inl e
           | Inr ratio \<Rightarrow> sum_adjustment_ratios (acc + ratio) rest))"

fun adjustment_totals :: "comparable_info list \<Rightarrow> error + real list" where
  \<comment> \<open>The values \<open>comp["adjustments"]["total"] for comp in comparable_data\<close>.\<close>
  "adjustment_totals [] = Inr []"
| "adjustment_totals (entry # rest) =
     (case adjustment_total entry of
        Inl e \<Rightarrow> Inl e
      | Inr t \<Rightarrow>
          (case adjustment_totals rest of
             Inl e \<Rightarrow> Inl e
           | Inr ts \<Rightarrow> Inr (t # ts)))"

definition py_min :: "real list \<Rightarrow> error + real" where
  \<comment> \<open>\<open>min\<close> of a sequence raises \<open>ValueError\<close> on an empty one.\<close>
  "py_min xs = (case xs of [] \<Rightarrow> Inl ValueError | x # rest \<Rightarrow> Inr (fold min rest x))"

definition py_max :: "real list \<Rightarrow> error + real" where
  "py_max xs = (case xs of [] \<Rightarrow> Inl ValueError | x # rest \<Rightarrow> Inr (fold max rest x))"

definition summarize :: "comparable_info list \<Rightarrow> error + adjustment_summary" where
  \<comment> \<open>The \<open>adjustment_summary\<close> entry of the result.\<close>
  "summarize comparable_data =
     (case adjustment_totals comparable_data of
        Inl e \<Rightarrow> Inl e
      | Inr ts \<Rightarrow>
          (case py_div (sum_list ts) (of_nat (length comparable_data)) of
             Inl e \<Rightarrow> Inl e
           | Inr avg \<Rightarrow>
               (case py_min ts of
                  Inl e \<Rightarrow> Inl e
                | Inr mn \<Rightarrow>
                    (case py_max ts of
                       Inl e \<Rightarrow> Inl e
                     | Inr mx \<Rightarrow>
                         Inr \<lparr>average_adjustment = py_int avg,
                              adjustment_range_min = mn,
                              adjustment_range_max = mx\<rparr>))))"

definition perform_cma_analysis :: "datetime \<Rightarrow> db \<Rightarrow> Property \<Rightarrow> error + analysis" where
  "perform_cma_analysis now database subject_property =
     (case find_comparables now database subject_property 6 of
        Inl e \<Rightarrow> Inl e
      | Inr comps \<Rightarrow>
          if comps = [] then Inr (fallback_analysis subject_property)
          else
            let processed = map (process_comparable now subject_property) comps;
                comparable_data = map fst processed;
                adjusted_prices = map snd processed;
                estimated = estimate_value adjusted_prices;
                base_confidence = 5 / 10 + of_nat (length comps) * (8 / 100)
            in case sum_adjustment_ratios 0 comparable_data of
                 Inl e \<Rightarrow> Inl e
               | Inr ratio_sum \<Rightarrow>
                   (case py_div ratio_sum (of_nat (length comparable_data)) of
                      Inl e \<Rightarrow> Inl e
                    | Inr avg_adjustment_ratio \<Rightarrow>
                        let adjustment_confidence_boost =
                              max 0 ((2 / 10) * (1 - avg_adjustment_ratio));
                            confidence =
                              min (95 / 100) (base_confidence + adjustment_confidence_boost)
                        in case summarize comparable_data of
                             Inl e \<Rightarrow> Inl e
                           | Inr sm \<Rightarrow>
                               Inr \<lparr>estimated_value = estimated,
                                    comparables = comparable_data,
                                    confidence_score = py_round2 confidence,
                                    summary = Some sm\<rparr>))"

section \<open>Notions used in the statements\<close>

definition adj_inv :: "string set \<Rightarrow> adjustments \<times> real \<Rightarrow> bool" where
  \<comment> \<open>Invariant of the body of \<open>calculate_adjustments\<close>: the keys written so far lie
      in \<open>K\<close> and the running total is the sum of the values written.\<close>
  "adj_inv K st \<longleftrightarrow> fst ` set (fst st) \<subseteq> K \<and> snd st = sum_list (map snd (fst st))"

definition nonneg_sqft :: "Property \<Rightarrow> bool" where
  \<comment> \<open>A valid property record has no negative square footage.\<close>
  "nonneg_sqft p = (case square_footage p of None \<Rightarrow> True | Some v \<Rightarrow> 0 \<le> v)"

definition row_of :: "scored_comp \<Rightarrow> Property \<times> PropertySale" where
  \<comment> \<open>The database row a scored comparable was built from.\<close>
  "row_of x = (fst x, fst (snd x))"

text \<open>
  The five weighted blocks of \<open>_calculate_similarity_score\<close>, each as the amount it
  adds to the score (\<open>score_factors\<close> below proves that the score is their sum).
\<close>

definition size_factor :: "Property \<Rightarrow> Property \<Rightarrow> real" where
  "size_factor s c =
     (if truthy_int (square_footage s) \<and> truthy_int (square_footage c)
      then max 0 (1 - of_int \<bar>the (square_footage s) - the (square_footage c)\<bar> /
                    of_int (max (the (square_footage s)) (the (square_footage c)))) * 30
      else 0)"

definition bedroom_factor :: "Property \<Rightarrow> Property \<Rightarrow> real" where
  "bedroom_factor s c =
     (if truthy_int (bedrooms s) \<and> truthy_int (bedrooms c)
      then max 0 (1 - of_int \<bar>the (bedrooms s) - the (bedrooms c)\<bar> / 5) * 15
      else 0)"

definition bathroom_factor :: "Property \<Rightarrow> Property \<Rightarrow> real" where
  "bathroom_factor s c =
     (if truthy_float (bathrooms s) \<and> truthy_float (bathrooms c)
      then max 0 (1 - \<bar>the (bathrooms s) - the (bathrooms c)\<bar> / 3) * 15
      else 0)"

definition age_factor :: "Property \<Rightarrow> Property \<Rightarrow> real" where
  "age_factor s c =
     (if truthy_int (year_built s) \<and> truthy_int (year_built c)
      then max 0 (1 - of_int \<bar>the (year_built s) - the (year_built c)\<bar> / 50) * 20
      else 0)"

definition proximity_factor :: "Property \<Rightarrow> Property \<Rightarrow> real" where
  "proximity_factor s c =
     (if truthy_float (latitude s) \<and> truthy_float (longitude s) \<and>
         truthy_float (latitude c) \<and> truthy_float (longitude c)
      then (case calculate_distance (the (latitude s)) (the (longitude s))
                   (the (latitude c)) (the (longitude c)) of
              Inl e \<Rightarrow> 0
            | Inr distance \<Rightarrow> max 0 (1 - distance / 10) * 20)
      else 0)"

definition similarity_value :: "Property \<Rightarrow> Property \<Rightarrow> real" where
  \<comment> \<open>The number \<open>_calculate_similarity_score\<close> returns (see \<open>score_value\<close>).\<close>
  "similarity_value s c =
     size_factor s c + bedroom_factor s c + bathroom_factor s c + age_factor s c +
     proximity_factor s c"

definition scored_rows :: "Property \<Rightarrow> db \<Rightarrow> scored_comp list" where
  \<comment> \<open>The rows paired with their scores, in the order of the rows.\<close>
  "scored_rows s rows = map (\<lambda>row. (fst row, snd row, similarity_value s (fst row))) rows"

definition same_clock_view :: "datetime \<Rightarrow> datetime \<Rightarrow> db \<Rightarrow> bool" where
  \<comment> \<open>Two clock readings that give every row of the pool the same side of the
      180-day cutoff and the same age in whole days.\<close>
  "same_clock_view now now' database =
     list_all (\<lambda>row.
        (now - timedelta_of_days 180 \<le> sale_date (snd row)) =
          (now' - timedelta_of_days 180 \<le> sale_date (snd row)) \<and>
        timedelta_days (now - sale_date (snd row)) =
          timedelta_days (now' - sale_date (snd row))) database"






subsection \<open>Concrete records for the examples\<close>

definition plain_property :: Property where
  "plain_property =
     \<lparr>prop_id = None, address = ''12 Elm St'', property_type = None,
      square_footage = None, bedrooms = None, bathrooms = None, year_built = None,
      lot_size = None, latitude = None, longitude = None\<rparr>"

definition sold_sale :: "real \<Rightarrow> datetime \<Rightarrow> PropertySale" where
  "sold_sale price date =
     \<lparr>sale_id = 1, property_id = 2, sale_price = price, sale_date = date,
      days_on_market = None, sale_type = Some ''sold''\<rparr>"

definition family_home :: Property where
  "family_home =
     \<lparr>prop_id = Some 7, address = ''7 Oak Ave'', property_type = Some ''single_family'',
      square_footage = Some 1800, bedrooms = Some 3, bathrooms = Some 2,
      year_built = Some 2010, lot_size = Some 6000, latitude = None, longitude = None\<rparr>"

definition subject_row :: "Property \<times> PropertySale" where
  "subject_row = (family_home\<lparr>prop_id := Some 0\<rparr>, sold_sale 400000 0)"

section \<open>The adjustment set\<close>

lemma update_fresh: "k \<notin> fst ` set al \<Longrightarrow> AList.update k v al = al @ [(k, v)]"
  by (induction al) auto

lemma record_adjustment_sum:
  "key \<notin> fst ` set (fst st) \<Longrightarrow> snd st = sum_list (map snd (fst st)) \<Longrightarrow>
   snd (record_adjustment key adj st) = sum_list (map snd (fst (record_adjustment key adj st)))"
  by (simp add: record_adjustment_def update_fresh)

lemma record_adjustment_keys:
  "fst ` set (fst (record_adjustment key adj st)) \<subseteq> insert key (fst ` set (fst st))"
  by (auto simp: record_adjustment_def dom_update)

lemma adj_inv_step:
  "adj_inv K st \<Longrightarrow> key \<notin> K \<Longrightarrow> adj_inv (insert key K) (record_adjustment key adj st)"
  unfolding adj_inv_def
  using record_adjustment_keys[of key adj st] record_adjustment_sum[of key st adj]
  by blast

lemma total_of_state:
  assumes "adj_inv K st" "''total'' \<notin> K"
  shows "map_of (AList.update ''total'' v (fst st)) ''total'' = Some v"
    and "named_entries (AList.update ''total'' v (fst st)) = fst st"
    and "sum_list (map snd (fst st)) = snd st"
proof -
  from assms have fresh: "''total'' \<notin> fst ` set (fst st)"
    by (auto simp: adj_inv_def)
  show "map_of (AList.update ''total'' v (fst st)) ''total'' = Some v"
    by (simp add: update_conv')
  from fresh show "named_entries (AList.update ''total'' v (fst st)) = fst st"
    by (force simp: update_fresh named_entries_def filter_id_conv)
  from assms show "sum_list (map snd (fst st)) = snd st"
    by (simp add: adj_inv_def)
qed

lemma total_entry:
  "map_of (calculate_adjustments now s c sale) ''total'' =
     Some (of_int (py_int (sum_list (map snd (named_entries (calculate_adjustments now s c sale))))))"
proof -
  define st where "st =
     record_adjustment ''time_adjustment'' (calculate_time_adjustment now sale)
      (record_adjustment ''lot_size_adjustment'' (calculate_lot_size_adjustment s c)
        (record_adjustment ''age_adjustment'' (calculate_age_adjustment s c)
          (record_adjustment ''bathroom_adjustment'' (calculate_bathroom_adjustment s c)
            (record_adjustment ''bedroom_adjustment'' (calculate_bedroom_adjustment s c)
              (record_adjustment ''size_adjustment'' (calculate_size_adjustment s c)
                ([], 0))))))"
  have eq: "calculate_adjustments now s c sale =
      AList.update ''total'' (of_int (py_int (snd st))) (fst st)"
    by (simp add: calculate_adjustments_def st_def Let_def)
  have "adj_inv {} ([], 0)"
    by (simp add: adj_inv_def)
  then have "adj_inv {''time_adjustment'', ''lot_size_adjustment'', ''age_adjustment'',
      ''bathroom_adjustment'', ''bedroom_adjustment'', ''size_adjustment''} st"
    unfolding st_def by (intro adj_inv_step) simp_all
  from total_of_state[OF this] show ?thesis
    unfolding eq by simp
qed

lemma py_int_near: "\<bar>of_int (py_int x) - x\<bar> < 1"
proof (cases "0 \<le> x")
  case True
  have "\<bar>of_int \<lfloor>x\<rfloor> - x\<bar> < 1"
    by linarith
  with True show ?thesis
    by (simp only: py_int_def if_True)
next
  case False
  have "\<bar>of_int \<lceil>x\<rceil> - x\<bar> < 1"
    by linarith
  with False show ?thesis
    by (simp only: py_int_def if_False)
qed

lemma adjustments_at_100_days:
  "calculate_adjustments (timedelta_of_days 100) plain_property plain_property
     (sold_sale 400000 0) = [(''time_adjustment'', 4000 / 9), (''total'', 444)]"
  by (simp add: calculate_adjustments_def record_adjustment_def
      calculate_size_adjustment_def calculate_bedroom_adjustment_def
      calculate_bathroom_adjustment_def calculate_age_adjustment_def
      calculate_lot_size_adjustment_def calculate_time_adjustment_def
      truthy_int_def truthy_float_def timedelta_days_def timedelta_of_days_def
      microseconds_per_day_def py_int_def plain_property_def sold_sale_def)

text \<open>
  C1 (as the code has it). The \<open>total\<close> entry of the adjustment set is the sum of the
  other entries truncated toward zero to an integer: it is within one dollar of that
  sum, and is not the sum itself when the sum has a fractional part.
\<close>

theorem calculate_adjustments_total_truncated:
  "map_of (calculate_adjustments now s c sale) ''total'' =
     Some (of_int (py_int
       (sum_list (map snd (named_entries (calculate_adjustments now s c sale)))))) \<and>
   \<bar>the (map_of (calculate_adjustments now s c sale) ''total'') -
     sum_list (map snd (named_entries (calculate_adjustments now s c sale)))\<bar> < 1"
  using py_int_near by (simp add: total_entry)

text \<open>
  C1, an instance: a sale of 400000 dollars made 100 days ago has a time adjustment of
  4000/9 dollars and no other adjustment; the total is 444.
\<close>

theorem calculate_adjustments_total_truncated_witness:
  "map_of (calculate_adjustments (timedelta_of_days 100) plain_property plain_property
     (sold_sale 400000 0)) ''total'' = Some 444"
  using calculate_adjustments_total_truncated
    [of "timedelta_of_days 100" plain_property plain_property "sold_sale 400000 0"]
  by (simp add: adjustments_at_100_days named_entries_def py_int_def)

text \<open>
  C1 (as stated) fails: for that sale the total, 444, is not the sum of the other
  entries, 4000/9.
\<close>

theorem calculate_adjustments_total_counterexample:
  "map_of (calculate_adjustments (timedelta_of_days 100) plain_property plain_property
     (sold_sale 400000 0)) ''total'' \<noteq>
   Some (sum_list (map snd (named_entries
     (calculate_adjustments (timedelta_of_days 100) plain_property plain_property
        (sold_sale 400000 0)))))"
  by (simp add: adjustments_at_100_days named_entries_def)

section \<open>The similarity score\<close>

lemma sin_half_sq: "(sin (x / 2))\<^sup>2 = (1 - cos x) / 2" for x :: real
  using cos_double_sin[of "x / 2"] by simp

lemma convex_bound:
  fixes t c1 c2 :: real
  assumes "0 \<le> t" "t \<le> 1" "\<bar>c1\<bar> \<le> 1" "\<bar>c2\<bar> \<le> 1"
  shows "\<bar>(1 - t) * c1 - t * c2\<bar> \<le> 1"
proof -
  have "\<bar>(1 - t) * c1\<bar> \<le> (1 - t)"
    using assms by (simp add: abs_mult mult_left_le)
  moreover have "\<bar>t * c2\<bar> \<le> t"
    using assms by (simp add: abs_mult mult_left_le)
  ultimately show ?thesis by linarith
qed

lemma haversine_a_bounds:
  "0 \<le> haversine_a lat1 lon1 lat2 lon2 \<and> haversine_a lat1 lon1 lat2 lon2 \<le> 1"
proof -
  define t where "t = (1 - cos (lon2 - lon1)) / 2"
  define x where "x = (1 - t) * cos (lat2 - lat1) - t * cos (lat1 + lat2)"
  have t: "0 \<le> t" "t \<le> 1"
    using cos_le_one[of "lon2 - lon1"] cos_ge_minus_one[of "lon2 - lon1"] by (simp_all add: t_def)
  have x: "\<bar>x\<bar> \<le> 1"
    unfolding x_def using t by (intro convex_bound) (simp_all add: abs_cos_le_one)
  have "haversine_a lat1 lon1 lat2 lon2 = (1 - cos (lat2 - lat1)) / 2 + cos lat1 * cos lat2 * t"
    by (simp add: haversine_a_def Let_def sin_half_sq t_def)
  also have "\<dots> = (1 - x) / 2"
    unfolding x_def cos_diff[of lat2 lat1] cos_add[of lat1 lat2] by (simp add: field_simps)
  finally show ?thesis using x by (simp add: abs_le_iff)
qed

text \<open>
  Over the reals the argument of the haversine formula lies between 0 and 1, so neither
  \<open>math.sqrt\<close> nor \<open>math.asin\<close> raises in the model. In double arithmetic rounding
  can put the computed argument just outside that interval, where the code raises
  \<open>ValueError\<close>; the statement below that the analysis returns therefore keeps to
  inputs for which no distance is computed.
\<close>

lemma calculate_distance_ok:
  "\<exists>d. calculate_distance lat1 lon1 lat2 lon2 = Inr d \<and> 0 \<le> d"
proof -
  define a where "a = haversine_a (math_radians lat1) (math_radians lon1) (math_radians lat2) (math_radians lon2)"
  have a: "0 \<le> a" "a \<le> 1" using haversine_a_bounds by (simp_all add: a_def)
  then have s: "0 \<le> sqrt a" "sqrt a \<le> 1" by simp_all
  then have "0 \<le> arcsin (sqrt a)" by (simp add: arcsin_nonneg)
  moreover have "\<not> a < 0" "\<not> sqrt a < - 1" "\<not> 1 < sqrt a" using a s by linarith+
  ultimately show ?thesis
    unfolding calculate_distance_def Let_def math_sqrt_def math_asin_def a_def[symmetric]
    by simp
qed

lemma factor_bounds:
  fixes x w :: real
  assumes "0 \<le> x" "0 \<le> w"
  shows "0 \<le> max 0 (1 - x) * w" "max 0 (1 - x) * w \<le> w"
proof -
  have m: "0 \<le> max 0 (1 - x)" "max 0 (1 - x) \<le> 1" using assms by simp_all
  show "0 \<le> max 0 (1 - x) * w" using m assms by simp
  show "max 0 (1 - x) * w \<le> w" using mult_right_mono[OF m(2) assms(2)] by simp
qed

lemma size_divisor_nonzero:
  "truthy_int a \<Longrightarrow> truthy_int b \<Longrightarrow> max (the a) (the b) \<noteq> 0"
  by (auto simp: truthy_int_def max_def split: option.splits)

lemma size_block:
  "(if truthy_int a \<and> truthy_int b
    then case py_div (of_int \<bar>the a - the b\<bar>) (of_int (max (the a) (the b))) of
           Inl e \<Rightarrow> Inl e
         | Inr q \<Rightarrow> Inr (0 + max 0 (1 - q) * 30)
    else Inr 0) =
   Inr (if truthy_int a \<and> truthy_int b
        then max 0 (1 - of_int \<bar>the a - the b\<bar> / of_int (max (the a) (the b))) * 30
        else 0)"
  using size_divisor_nonzero[of a b] by (simp add: py_div_def)

lemma size_ratio_nonneg:
  assumes "truthy_int a" "truthy_int b" "0 \<le> the a" "0 \<le> the b"
  shows "0 \<le> (of_int \<bar>the a - the b\<bar> :: real) / of_int (max (the a) (the b))"
  using assms by (intro divide_nonneg_nonneg) (simp_all add: max_def)

lemmas factor_defs = size_factor_def bedroom_factor_def bathroom_factor_def age_factor_def
  proximity_factor_def

lemma score_factors:
  "calculate_similarity_score s c =
     Inr (size_factor s c + bedroom_factor s c + bathroom_factor s c + age_factor s c +
          proximity_factor s c)"
proof -
  obtain d where d: "calculate_distance (the (latitude s)) (the (longitude s))
       (the (latitude c)) (the (longitude c)) = Inr d"
    using calculate_distance_ok by blast
  show ?thesis
    unfolding calculate_similarity_score_def Let_def size_block factor_defs
    by (simp add: d)
qed

lemma factor_ranges:
  "nonneg_sqft s \<Longrightarrow> nonneg_sqft c \<Longrightarrow> 0 \<le> size_factor s c \<and> size_factor s c \<le> 30"
  "0 \<le> bedroom_factor s c \<and> bedroom_factor s c \<le> 15"
  "0 \<le> bathroom_factor s c \<and> bathroom_factor s c \<le> 15"
  "0 \<le> age_factor s c \<and> age_factor s c \<le> 20"
  "0 \<le> proximity_factor s c \<and> proximity_factor s c \<le> 20"
proof -
  show "0 \<le> bedroom_factor s c \<and> bedroom_factor s c \<le> 15"
    unfolding bedroom_factor_def
    using factor_bounds[of "of_int \<bar>the (bedrooms s) - the (bedrooms c)\<bar> / 5" 15] by simp
  show "0 \<le> bathroom_factor s c \<and> bathroom_factor s c \<le> 15"
    unfolding bathroom_factor_def
    using factor_bounds[of "\<bar>the (bathrooms s) - the (bathrooms c)\<bar> / 3" 15] by simp
  show "0 \<le> age_factor s c \<and> age_factor s c \<le> 20"
    unfolding age_factor_def
    using factor_bounds[of "of_int \<bar>the (year_built s) - the (year_built c)\<bar> / 50" 20] by simp
  obtain d where d: "calculate_distance (the (latitude s)) (the (longitude s))
       (the (latitude c)) (the (longitude c)) = Inr d" and d0: "0 \<le> d"
    using calculate_distance_ok by blast
  show "0 \<le> proximity_factor s c \<and> proximity_factor s c \<le> 20"
    unfolding proximity_factor_def d using factor_bounds[of "d / 10" 20] d0 by simp
  assume v: "nonneg_sqft s" "nonneg_sqft c"
  have pos: "truthy_int (square_footage s) \<Longrightarrow> 0 \<le> the (square_footage s)"
       "truthy_int (square_footage c) \<Longrightarrow> 0 \<le> the (square_footage c)"
    using v by (auto simp: nonneg_sqft_def truthy_int_def split: option.splits)
  show "0 \<le> size_factor s c \<and> size_factor s c \<le> 30"
    unfolding size_factor_def
    using factor_bounds[OF size_ratio_nonneg, of "square_footage s" "square_footage c" 30] pos
    by simp
qed

lemma zero_field_factor:
  "size_factor (s\<lparr>square_footage := Some 0\<rparr>) c = 0"
  "size_factor s (c\<lparr>square_footage := Some 0\<rparr>) = 0"
  "bedroom_factor (s\<lparr>bedrooms := Some 0\<rparr>) c = 0"
  "bedroom_factor s (c\<lparr>bedrooms := Some 0\<rparr>) = 0"
  "bathroom_factor (s\<lparr>bathrooms := Some 0\<rparr>) c = 0"
  "bathroom_factor s (c\<lparr>bathrooms := Some 0\<rparr>) = 0"
  "age_factor (s\<lparr>year_built := Some 0\<rparr>) c = 0"
  "age_factor s (c\<lparr>year_built := Some 0\<rparr>) = 0"
  by (simp_all add: factor_defs truthy_int_def truthy_float_def)

lemma absent_field_factor:
  "size_factor (s\<lparr>square_footage := None\<rparr>) c = 0"
  "size_factor s (c\<lparr>square_footage := None\<rparr>) = 0"
  "bedroom_factor (s\<lparr>bedrooms := None\<rparr>) c = 0"
  "bedroom_factor s (c\<lparr>bedrooms := None\<rparr>) = 0"
  "bathroom_factor (s\<lparr>bathrooms := None\<rparr>) c = 0"
  "bathroom_factor s (c\<lparr>bathrooms := None\<rparr>) = 0"
  "age_factor (s\<lparr>year_built := None\<rparr>) c = 0"
  "age_factor s (c\<lparr>year_built := None\<rparr>) = 0"
  by (simp_all add: factor_defs truthy_int_def truthy_float_def)

lemma other_field_factor:
  "size_factor (s\<lparr>bedrooms := v1\<rparr>) c = size_factor s c"
  "size_factor (s\<lparr>bathrooms := v2\<rparr>) c = size_factor s c"
  "size_factor (s\<lparr>year_built := v1\<rparr>) c = size_factor s c"
  "size_factor s (c\<lparr>bedrooms := v1\<rparr>) = size_factor s c"
  "size_factor s (c\<lparr>bathrooms := v2\<rparr>) = size_factor s c"
  "size_factor s (c\<lparr>year_built := v1\<rparr>) = size_factor s c"
  "bedroom_factor (s\<lparr>square_footage := v1\<rparr>) c = bedroom_factor s c"
  "bedroom_factor (s\<lparr>bathrooms := v2\<rparr>) c = bedroom_factor s c"
  "bedroom_factor (s\<lparr>year_built := v1\<rparr>) c = bedroom_factor s c"
  "bedroom_factor s (c\<lparr>square_footage := v1\<rparr>) = bedroom_factor s c"
  "bedroom_factor s (c\<lparr>bathrooms := v2\<rparr>) = bedroom_factor s c"
  "bedroom_factor s (c\<lparr>year_built := v1\<rparr>) = bedroom_factor s c"
  "bathroom_factor (s\<lparr>square_footage := v1\<rparr>) c = bathroom_factor s c"
  "bathroom_factor (s\<lparr>bedrooms := v1\<rparr>) c = bathroom_factor s c"
  "bathroom_factor (s\<lparr>year_built := v1\<rparr>) c = bathroom_factor s c"
  "bathroom_factor s (c\<lparr>square_footage := v1\<rparr>) = bathroom_factor s c"
  "bathroom_factor s (c\<lparr>bedrooms := v1\<rparr>) = bathroom_factor s c"
  "bathroom_factor s (c\<lparr>year_built := v1\<rparr>) = bathroom_factor s c"
  "age_factor (s\<lparr>square_footage := v1\<rparr>) c = age_factor s c"
  "age_factor (s\<lparr>bedrooms := v1\<rparr>) c = age_factor s c"
  "age_factor (s\<lparr>bathrooms := v2\<rparr>) c = age_factor s c"
  "age_factor s (c\<lparr>square_footage := v1\<rparr>) = age_factor s c"
  "age_factor s (c\<lparr>bedrooms := v1\<rparr>) = age_factor s c"
  "age_factor s (c\<lparr>bathrooms := v2\<rparr>) = age_factor s c"
  "proximity_factor (s\<lparr>square_footage := v1\<rparr>) c = proximity_factor s c"
  "proximity_factor (s\<lparr>bedrooms := v1\<rparr>) c = proximity_factor s c"
  "proximity_factor (s\<lparr>bathrooms := v2\<rparr>) c = proximity_factor s c"
  "proximity_factor (s\<lparr>year_built := v1\<rparr>) c = proximity_factor s c"
  "proximity_factor s (c\<lparr>square_footage := v1\<rparr>) = proximity_factor s c"
  "proximity_factor s (c\<lparr>bedrooms := v1\<rparr>) = proximity_factor s c"
  "proximity_factor s (c\<lparr>bathrooms := v2\<rparr>) = proximity_factor s c"
  "proximity_factor s (c\<lparr>year_built := v1\<rparr>) = proximity_factor s c"
  by (simp_all add: factor_defs)

lemma score_zero_as_absent:
  "calculate_similarity_score (s\<lparr>square_footage := Some 0\<rparr>) c =
     calculate_similarity_score (s\<lparr>square_footage := None\<rparr>) c"
  "calculate_similarity_score s (c\<lparr>square_footage := Some 0\<rparr>) =
     calculate_similarity_score s (c\<lparr>square_footage := None\<rparr>)"
  "calculate_similarity_score (s\<lparr>bedrooms := Some 0\<rparr>) c =
     calculate_similarity_score (s\<lparr>bedrooms := None\<rparr>) c"
  "calculate_similarity_score s (c\<lparr>bedrooms := Some 0\<rparr>) =
     calculate_similarity_score s (c\<lparr>bedrooms := None\<rparr>)"
  "calculate_similarity_score (s\<lparr>bathrooms := Some 0\<rparr>) c =
     calculate_similarity_score (s\<lparr>bathrooms := None\<rparr>) c"
  "calculate_similarity_score s (c\<lparr>bathrooms := Some 0\<rparr>) =
     calculate_similarity_score s (c\<lparr>bathrooms := None\<rparr>)"
  "calculate_similarity_score (s\<lparr>year_built := Some 0\<rparr>) c =
     calculate_similarity_score (s\<lparr>year_built := None\<rparr>) c"
  "calculate_similarity_score s (c\<lparr>year_built := Some 0\<rparr>) =
     calculate_similarity_score s (c\<lparr>year_built := None\<rparr>)"
  by (simp_all only: score_factors zero_field_factor absent_field_factor other_field_factor)

lemma missing_fields_factor:
  "square_footage s = None \<or> square_footage c = None \<Longrightarrow> size_factor s c = 0"
  "bedrooms s = None \<or> bedrooms c = None \<Longrightarrow> bedroom_factor s c = 0"
  "bathrooms s = None \<or> bathrooms c = None \<Longrightarrow> bathroom_factor s c = 0"
  "year_built s = None \<or> year_built c = None \<Longrightarrow> age_factor s c = 0"
  "latitude s = None \<or> longitude s = None \<or> latitude c = None \<or> longitude c = None
     \<Longrightarrow> proximity_factor s c = 0"
proof -
  show "size_factor s c = 0" if "square_footage s = None \<or> square_footage c = None"
    using that unfolding size_factor_def truthy_int_def by auto
  show "bedroom_factor s c = 0" if "bedrooms s = None \<or> bedrooms c = None"
    using that unfolding bedroom_factor_def truthy_int_def by auto
  show "bathroom_factor s c = 0" if "bathrooms s = None \<or> bathrooms c = None"
    using that unfolding bathroom_factor_def truthy_float_def by auto
  show "age_factor s c = 0" if "year_built s = None \<or> year_built c = None"
    using that unfolding age_factor_def truthy_int_def by auto
  show "proximity_factor s c = 0"
    if "latitude s = None \<or> longitude s = None \<or> latitude c = None \<or> longitude c = None"
    using that unfolding proximity_factor_def truthy_float_def by auto
qed

text \<open>
  C5. For subject and candidate records without a negative square footage, the
  similarity score is computed (no error) and lies between 0 and 100; it is 0 when each
  of the five factors has its field missing on at least one side.
\<close>

theorem similarity_score_range:
  assumes "nonneg_sqft s" and "nonneg_sqft c"
  shows "\<exists>sc. calculate_similarity_score s c = Inr sc \<and> 0 \<le> sc \<and> sc \<le> 100 \<and>
           ((square_footage s = None \<or> square_footage c = None) \<and>
            (bedrooms s = None \<or> bedrooms c = None) \<and>
            (bathrooms s = None \<or> bathrooms c = None) \<and>
            (year_built s = None \<or> year_built c = None) \<and>
            (latitude s = None \<or> longitude s = None \<or>
             latitude c = None \<or> longitude c = None)
            \<longrightarrow> sc = 0)"
proof -
  define sc where "sc = size_factor s c + bedroom_factor s c + bathroom_factor s c +
      age_factor s c + proximity_factor s c"
  have eq: "calculate_similarity_score s c = Inr sc"
    by (simp only: score_factors sc_def)
  have lower: "0 \<le> sc" and upper: "sc \<le> 100"
    unfolding sc_def
    using factor_ranges(1)[OF assms] factor_ranges(2-5)[of s c] by linarith+
  have missing: "sc = 0"
    if "(square_footage s = None \<or> square_footage c = None) \<and>
        (bedrooms s = None \<or> bedrooms c = None) \<and>
        (bathrooms s = None \<or> bathrooms c = None) \<and>
        (year_built s = None \<or> year_built c = None) \<and>
        (latitude s = None \<or> longitude s = None \<or>
         latitude c = None \<or> longitude c = None)"
  proof -
    from that have "size_factor s c = 0" "bedroom_factor s c = 0" "bathroom_factor s c = 0"
        "age_factor s c = 0" "proximity_factor s c = 0"
      using missing_fields_factor[of s c] by blast+
    then show ?thesis by (simp only: sc_def add_0)
  qed
  show ?thesis
  proof (intro exI[of _ sc] conjI impI)
    show "calculate_similarity_score s c = Inr sc" by (rule eq)
    show "0 \<le> sc" by (rule lower)
    show "sc \<le> 100" by (rule upper)
    show "sc = 0"
      if "(square_footage s = None \<or> square_footage c = None) \<and>
          (bedrooms s = None \<or> bedrooms c = None) \<and>
          (bathrooms s = None \<or> bathrooms c = None) \<and>
          (year_built s = None \<or> year_built c = None) \<and>
          (latitude s = None \<or> longitude s = None \<or>
           latitude c = None \<or> longitude c = None)"
      using that by (rule missing)
  qed
qed

lemma score_at_2000_sqft:
  "calculate_similarity_score family_home (family_home\<lparr>square_footage := Some 2000\<rparr>) = Inr 77"
  by (simp add: score_factors factor_defs truthy_int_def truthy_float_def family_home_def)

text \<open>
  C5, an instance: a 1800 sq ft home against the same home at 2000 sq ft (coordinates
  missing) scores 77.
\<close>

theorem similarity_score_range_witness:
  "nonneg_sqft family_home \<and> nonneg_sqft (family_home\<lparr>square_footage := Some 2000\<rparr>) \<and>
   (\<exists>sc. calculate_similarity_score family_home (family_home\<lparr>square_footage := Some 2000\<rparr>)
            = Inr sc \<and> 0 \<le> sc \<and> sc \<le> 100 \<and> sc = 77)"
proof -
  have v: "nonneg_sqft family_home" "nonneg_sqft (family_home\<lparr>square_footage := Some 2000\<rparr>)"
    by (simp_all add: nonneg_sqft_def family_home_def)
  from similarity_score_range[OF v] obtain sc where
    sc: "calculate_similarity_score family_home (family_home\<lparr>square_footage := Some 2000\<rparr>) = Inr sc"
      "0 \<le> sc" "sc \<le> 100"
    by blast
  from sc(1) have "sc = 77" by (simp only: score_at_2000_sqft sum.inject)
  with v sc show ?thesis by blast
qed

section \<open>Zero-valued fields\<close>

lemmas component_defs = calculate_size_adjustment_def calculate_bedroom_adjustment_def
  calculate_bathroom_adjustment_def calculate_age_adjustment_def calculate_lot_size_adjustment_def

lemma zero_field_component:
  "calculate_size_adjustment (s\<lparr>square_footage := Some 0\<rparr>) c = 0"
  "calculate_size_adjustment s (c\<lparr>square_footage := Some 0\<rparr>) = 0"
  "calculate_bedroom_adjustment (s\<lparr>bedrooms := Some 0\<rparr>) c = 0"
  "calculate_bedroom_adjustment s (c\<lparr>bedrooms := Some 0\<rparr>) = 0"
  "calculate_bathroom_adjustment (s\<lparr>bathrooms := Some 0\<rparr>) c = 0"
  "calculate_bathroom_adjustment s (c\<lparr>bathrooms := Some 0\<rparr>) = 0"
  "calculate_age_adjustment (s\<lparr>year_built := Some 0\<rparr>) c = 0"
  "calculate_age_adjustment s (c\<lparr>year_built := Some 0\<rparr>) = 0"
  "calculate_lot_size_adjustment (s\<lparr>lot_size := Some 0\<rparr>) c = 0"
  "calculate_lot_size_adjustment s (c\<lparr>lot_size := Some 0\<rparr>) = 0"
  by (simp_all add: component_defs truthy_int_def truthy_float_def)

lemma absent_field_component:
  "calculate_size_adjustment (s\<lparr>square_footage := None\<rparr>) c = 0"
  "calculate_size_adjustment s (c\<lparr>square_footage := None\<rparr>) = 0"
  "calculate_bedroom_adjustment (s\<lparr>bedrooms := None\<rparr>) c = 0"
  "calculate_bedroom_adjustment s (c\<lparr>bedrooms := None\<rparr>) = 0"
  "calculate_bathroom_adjustment (s\<lparr>bathrooms := None\<rparr>) c = 0"
  "calculate_bathroom_adjustment s (c\<lparr>bathrooms := None\<rparr>) = 0"
  "calculate_age_adjustment (s\<lparr>year_built := None\<rparr>) c = 0"
  "calculate_age_adjustment s (c\<lparr>year_built := None\<rparr>) = 0"
  "calculate_lot_size_adjustment (s\<lparr>lot_size := None\<rparr>) c = 0"
  "calculate_lot_size_adjustment s (c\<lparr>lot_size := None\<rparr>) = 0"
  by (simp_all add: component_defs truthy_int_def truthy_float_def)

lemma other_field_component:
  "calculate_size_adjustment (s\<lparr>bedrooms := v1\<rparr>) c = calculate_size_adjustment s c"
  "calculate_size_adjustment s (c\<lparr>bedrooms := v1\<rparr>) = calculate_size_adjustment s c"
  "calculate_size_adjustment (s\<lparr>bathrooms := v2\<rparr>) c = calculate_size_adjustment s c"
  "calculate_size_adjustment s (c\<lparr>bathrooms := v2\<rparr>) = calculate_size_adjustment s c"
  "calculate_size_adjustment (s\<lparr>year_built := v1\<rparr>) c = calculate_size_adjustment s c"
  "calculate_size_adjustment s (c\<lparr>year_built := v1\<rparr>) = calculate_size_adjustment s c"
  "calculate_size_adjustment (s\<lparr>lot_size := v1\<rparr>) c = calculate_size_adjustment s c"
  "calculate_size_adjustment s (c\<lparr>lot_size := v1\<rparr>) = calculate_size_adjustment s c"
  "calculate_bedroom_adjustment (s\<lparr>square_footage := v1\<rparr>) c = calculate_bedroom_adjustment s c"
  "calculate_bedroom_adjustment s (c\<lparr>square_footage := v1\<rparr>) = calculate_bedroom_adjustment s c"
  "calculate_bedroom_adjustment (s\<lparr>bathrooms := v2\<rparr>) c = calculate_bedroom_adjustment s c"
  "calculate_bedroom_adjustment s (c\<lparr>bathrooms := v2\<rparr>) = calculate_bedroom_adjustment s c"
  "calculate_bedroom_adjustment (s\<lparr>year_built := v1\<rparr>) c = calculate_bedroom_adjustment s c"
  "calculate_bedroom_adjustment s (c\<lparr>year_built := v1\<rparr>) = calculate_bedroom_adjustment s c"
  "calculate_bedroom_adjustment (s\<lparr>lot_size := v1\<rparr>) c = calculate_bedroom_adjustment s c"
  "calculate_bedroom_adjustment s (c\<lparr>lot_size := v1\<rparr>) = calculate_bedroom_adjustment s c"
  "calculate_bathroom_adjustment (s\<lparr>square_footage := v1\<rparr>) c = calculate_bathroom_adjustment s c"
  "calculate_bathroom_adjustment s (c\<lparr>square_footage := v1\<rparr>) = calculate_bathroom_adjustment s c"
  "calculate_bathroom_adjustment (s\<lparr>bedrooms := v1\<rparr>) c = calculate_bathroom_adjustment s c"
  "calculate_bathroom_adjustment s (c\<lparr>bedrooms := v1\<rparr>) = calculate_bathroom_adjustment s c"
  "calculate_bathroom_adjustment (s\<lparr>year_built := v1\<rparr>) c = calculate_bathroom_adjustment s c"
  "calculate_bathroom_adjustment s (c\<lparr>year_built := v1\<rparr>) = calculate_bathroom_adjustment s c"
  "calculate_bathroom_adjustment (s\<lparr>lot_size := v1\<rparr>) c = calculate_bathroom_adjustment s c"
  "calculate_bathroom_adjustment s (c\<lparr>lot_size := v1\<rparr>) = calculate_bathroom_adjustment s c"
  "calculate_age_adjustment (s\<lparr>square_footage := v1\<rparr>) c = calculate_age_adjustment s c"
  "calculate_age_adjustment s (c\<lparr>square_footage := v1\<rparr>) = calculate_age_adjustment s c"
  "calculate_age_adjustment (s\<lparr>bedrooms := v1\<rparr>) c = calculate_age_adjustment s c"
  "calculate_age_adjustment s (c\<lparr>bedrooms := v1\<rparr>) = calculate_age_adjustment s c"
  "calculate_age_adjustment (s\<lparr>bathrooms := v2\<rparr>) c = calculate_age_adjustment s c"
  "calculate_age_adjustment s (c\<lparr>bathrooms := v2\<rparr>) = calculate_age_adjustment s c"
  "calculate_age_adjustment (s\<lparr>lot_size := v1\<rparr>) c = calculate_age_adjustment s c"
  "calculate_age_adjustment s (c\<lparr>lot_size := v1\<rparr>) = calculate_age_adjustment s c"
  "calculate_lot_size_adjustment (s\<lparr>square_footage := v1\<rparr>) c = calculate_lot_size_adjustment s c"
  "calculate_lot_size_adjustment s (c\<lparr>square_footage := v1\<rparr>) = calculate_lot_size_adjustment s c"
  "calculate_lot_size_adjustment (s\<lparr>bedrooms := v1\<rparr>) c = calculate_lot_size_adjustment s c"
  "calculate_lot_size_adjustment s (c\<lparr>bedrooms := v1\<rparr>) = calculate_lot_size_adjustment s c"
  "calculate_lot_size_adjustment (s\<lparr>bathrooms := v2\<rparr>) c = calculate_lot_size_adjustment s c"
  "calculate_lot_size_adjustment s (c\<lparr>bathrooms := v2\<rparr>) = calculate_lot_size_adjustment s c"
  "calculate_lot_size_adjustment (s\<lparr>year_built := v1\<rparr>) c = calculate_lot_size_adjustment s c"
  "calculate_lot_size_adjustment s (c\<lparr>year_built := v1\<rparr>) = calculate_lot_size_adjustment s c"
  by (simp_all add: component_defs)

lemma adjustments_cong:
  assumes "calculate_size_adjustment s' c' = calculate_size_adjustment s c"
    and "calculate_bedroom_adjustment s' c' = calculate_bedroom_adjustment s c"
    and "calculate_bathroom_adjustment s' c' = calculate_bathroom_adjustment s c"
    and "calculate_age_adjustment s' c' = calculate_age_adjustment s c"
    and "calculate_lot_size_adjustment s' c' = calculate_lot_size_adjustment s c"
    and "calculate_time_adjustment now' sale' = calculate_time_adjustment now sale"
  shows "calculate_adjustments now' s' c' sale' = calculate_adjustments now s c sale"
  unfolding calculate_adjustments_def assms ..

lemma adjustments_zero_as_absent:
  "calculate_adjustments now (s\<lparr>square_footage := Some 0\<rparr>) c sale =
     calculate_adjustments now (s\<lparr>square_footage := None\<rparr>) c sale"
  "calculate_adjustments now s (c\<lparr>square_footage := Some 0\<rparr>) sale =
     calculate_adjustments now s (c\<lparr>square_footage := None\<rparr>) sale"
  "calculate_adjustments now (s\<lparr>bedrooms := Some 0\<rparr>) c sale =
     calculate_adjustments now (s\<lparr>bedrooms := None\<rparr>) c sale"
  "calculate_adjustments now s (c\<lparr>bedrooms := Some 0\<rparr>) sale =
     calculate_adjustments now s (c\<lparr>bedrooms := None\<rparr>) sale"
  "calculate_adjustments now (s\<lparr>bathrooms := Some 0\<rparr>) c sale =
     calculate_adjustments now (s\<lparr>bathrooms := None\<rparr>) c sale"
  "calculate_adjustments now s (c\<lparr>bathrooms := Some 0\<rparr>) sale =
     calculate_adjustments now s (c\<lparr>bathrooms := None\<rparr>) sale"
  "calculate_adjustments now (s\<lparr>year_built := Some 0\<rparr>) c sale =
     calculate_adjustments now (s\<lparr>year_built := None\<rparr>) c sale"
  "calculate_adjustments now s (c\<lparr>year_built := Some 0\<rparr>) sale =
     calculate_adjustments now s (c\<lparr>year_built := None\<rparr>) sale"
  "calculate_adjustments now (s\<lparr>lot_size := Some 0\<rparr>) c sale =
     calculate_adjustments now (s\<lparr>lot_size := None\<rparr>) c sale"
  "calculate_adjustments now s (c\<lparr>lot_size := Some 0\<rparr>) sale =
     calculate_adjustments now s (c\<lparr>lot_size := None\<rparr>) sale"
  by (auto intro!: adjustments_cong
      simp: zero_field_component absent_field_component other_field_component)

lemma map_of_record_adjustment:
  "map_of (fst (record_adjustment key adj st)) k =
     (if k = key \<and> adj \<noteq> 0 then Some adj else map_of (fst st) k)"
  by (simp add: record_adjustment_def update_conv')

lemma category_lookup:
  "map_of (calculate_adjustments now s c sale) ''size_adjustment'' =
     (if calculate_size_adjustment s c \<noteq> 0 then Some (calculate_size_adjustment s c) else None)"
  "map_of (calculate_adjustments now s c sale) ''bedroom_adjustment'' =
     (if calculate_bedroom_adjustment s c \<noteq> 0 then Some (calculate_bedroom_adjustment s c) else None)"
  "map_of (calculate_adjustments now s c sale) ''bathroom_adjustment'' =
     (if calculate_bathroom_adjustment s c \<noteq> 0 then Some (calculate_bathroom_adjustment s c) else None)"
  "map_of (calculate_adjustments now s c sale) ''age_adjustment'' =
     (if calculate_age_adjustment s c \<noteq> 0 then Some (calculate_age_adjustment s c) else None)"
  "map_of (calculate_adjustments now s c sale) ''lot_size_adjustment'' =
     (if calculate_lot_size_adjustment s c \<noteq> 0 then Some (calculate_lot_size_adjustment s c) else None)"
  "map_of (calculate_adjustments now s c sale) ''time_adjustment'' =
     (if calculate_time_adjustment now sale \<noteq> 0 then Some (calculate_time_adjustment now sale) else None)"
  by (simp_all add: calculate_adjustments_def Let_def update_conv' map_of_record_adjustment)

lemma category_omitted:
  "map_of (calculate_adjustments now (s\<lparr>square_footage := Some 0\<rparr>) c sale) ''size_adjustment'' = None"
  "map_of (calculate_adjustments now s (c\<lparr>square_footage := Some 0\<rparr>) sale) ''size_adjustment'' = None"
  "map_of (calculate_adjustments now (s\<lparr>bedrooms := Some 0\<rparr>) c sale) ''bedroom_adjustment'' = None"
  "map_of (calculate_adjustments now s (c\<lparr>bedrooms := Some 0\<rparr>) sale) ''bedroom_adjustment'' = None"
  "map_of (calculate_adjustments now (s\<lparr>bathrooms := Some 0\<rparr>) c sale) ''bathroom_adjustment'' = None"
  "map_of (calculate_adjustments now s (c\<lparr>bathrooms := Some 0\<rparr>) sale) ''bathroom_adjustment'' = None"
  "map_of (calculate_adjustments now (s\<lparr>year_built := Some 0\<rparr>) c sale) ''age_adjustment'' = None"
  "map_of (calculate_adjustments now s (c\<lparr>year_built := Some 0\<rparr>) sale) ''age_adjustment'' = None"
  "map_of (calculate_adjustments now (s\<lparr>lot_size := Some 0\<rparr>) c sale) ''lot_size_adjustment'' = None"
  "map_of (calculate_adjustments now s (c\<lparr>lot_size := Some 0\<rparr>) sale) ''lot_size_adjustment'' = None"
  by (simp_all add: category_lookup zero_field_component)

text \<open>
  C10. A value of 0 in square footage, bedrooms, bathrooms, year built or lot size, on
  the subject or on the comparable, is treated exactly as an absent field: the
  similarity score and the adjustment set are those of the record with the field
  absent, the field's adjustment category is not in the adjustment set, and the field's
  factor adds 0 to the score.
\<close>

theorem zero_field_treated_as_absent:
  "calculate_similarity_score (s\<lparr>square_footage := Some 0\<rparr>) c =
     calculate_similarity_score (s\<lparr>square_footage := None\<rparr>) c \<and>
   calculate_similarity_score s (c\<lparr>square_footage := Some 0\<rparr>) =
     calculate_similarity_score s (c\<lparr>square_footage := None\<rparr>) \<and>
   calculate_similarity_score (s\<lparr>bedrooms := Some 0\<rparr>) c =
     calculate_similarity_score (s\<lparr>bedrooms := None\<rparr>) c \<and>
   calculate_similarity_score s (c\<lparr>bedrooms := Some 0\<rparr>) =
     calculate_similarity_score s (c\<lparr>bedrooms := None\<rparr>) \<and>
   calculate_similarity_score (s\<lparr>bathrooms := Some 0\<rparr>) c =
     calculate_similarity_score (s\<lparr>bathrooms := None\<rparr>) c \<and>
   calculate_similarity_score s (c\<lparr>bathrooms := Some 0\<rparr>) =
     calculate_similarity_score s (c\<lparr>bathrooms := None\<rparr>) \<and>
   calculate_similarity_score (s\<lparr>year_built := Some 0\<rparr>) c =
     calculate_similarity_score (s\<lparr>year_built := None\<rparr>) c \<and>
   calculate_similarity_score s (c\<lparr>year_built := Some 0\<rparr>) =
     calculate_similarity_score s (c\<lparr>year_built := None\<rparr>) \<and>
   calculate_adjustments now (s\<lparr>square_footage := Some 0\<rparr>) c sale =
     calculate_adjustments now (s\<lparr>square_footage := None\<rparr>) c sale \<and>
   calculate_adjustments now s (c\<lparr>square_footage := Some 0\<rparr>) sale =
     calculate_adjustments now s (c\<lparr>square_footage := None\<rparr>) sale \<and>
   calculate_adjustments now (s\<lparr>bedrooms := Some 0\<rparr>) c sale =
     calculate_adjustments now (s\<lparr>bedrooms := None\<rparr>) c sale \<and>
   calculate_adjustments now s (c\<lparr>bedrooms := Some 0\<rparr>) sale =
     calculate_adjustments now s (c\<lparr>bedrooms := None\<rparr>) sale \<and>
   calculate_adjustments now (s\<lparr>bathrooms := Some 0\<rparr>) c sale =
     calculate_adjustments now (s\<lparr>bathrooms := None\<rparr>) c sale \<and>
   calculate_adjustments now s (c\<lparr>bathrooms := Some 0\<rparr>) sale =
     calculate_adjustments now s (c\<lparr>bathrooms := None\<rparr>) sale \<and>
   calculate_adjustments now (s\<lparr>year_built := Some 0\<rparr>) c sale =
     calculate_adjustments now (s\<lparr>year_built := None\<rparr>) c sale \<and>
   calculate_adjustments now s (c\<lparr>year_built := Some 0\<rparr>) sale =
     calculate_adjustments now s (c\<lparr>year_built := None\<rparr>) sale \<and>
   calculate_adjustments now (s\<lparr>lot_size := Some 0\<rparr>) c sale =
     calculate_adjustments now (s\<lparr>lot_size := None\<rparr>) c sale \<and>
   calculate_adjustments now s (c\<lparr>lot_size := Some 0\<rparr>) sale =
     calculate_adjustments now s (c\<lparr>lot_size := None\<rparr>) sale \<and>
   map_of (calculate_adjustments now (s\<lparr>square_footage := Some 0\<rparr>) c sale)
     ''size_adjustment'' = None \<and>
   map_of (calculate_adjustments now s (c\<lparr>square_footage := Some 0\<rparr>) sale)
     ''size_adjustment'' = None \<and>
   map_of (calculate_adjustments now (s\<lparr>bedrooms := Some 0\<rparr>) c sale)
     ''bedroom_adjustment'' = None \<and>
   map_of (calculate_adjustments now s (c\<lparr>bedrooms := Some 0\<rparr>) sale)
     ''bedroom_adjustment'' = None \<and>
   map_of (calculate_adjustments now (s\<lparr>bathrooms := Some 0\<rparr>) c sale)
     ''bathroom_adjustment'' = None \<and>
   map_of (calculate_adjustments now s (c\<lparr>bathrooms := Some 0\<rparr>) sale)
     ''bathroom_adjustment'' = None \<and>
   map_of (calculate_adjustments now (s\<lparr>year_built := Some 0\<rparr>) c sale)
     ''age_adjustment'' = None \<and>
   map_of (calculate_adjustments now s (c\<lparr>year_built := Some 0\<rparr>) sale)
     ''age_adjustment'' = None \<and>
   map_of (calculate_adjustments now (s\<lparr>lot_size := Some 0\<rparr>) c sale)
     ''lot_size_adjustment'' = None \<and>
   map_of (calculate_adjustments now s (c\<lparr>lot_size := Some 0\<rparr>) sale)
     ''lot_size_adjustment'' = None \<and>
   size_factor (s\<lparr>square_footage := Some 0\<rparr>) c = 0 \<and>
   size_factor s (c\<lparr>square_footage := Some 0\<rparr>) = 0 \<and>
   bedroom_factor (s\<lparr>bedrooms := Some 0\<rparr>) c = 0 \<and>
   bedroom_factor s (c\<lparr>bedrooms := Some 0\<rparr>) = 0 \<and>
   bathroom_factor (s\<lparr>bathrooms := Some 0\<rparr>) c = 0 \<and>
   bathroom_factor s (c\<lparr>bathrooms := Some 0\<rparr>) = 0 \<and>
   age_factor (s\<lparr>year_built := Some 0\<rparr>) c = 0 \<and>
   age_factor s (c\<lparr>year_built := Some 0\<rparr>) = 0"
  by (intro conjI score_zero_as_absent adjustments_zero_as_absent category_omitted
      zero_field_factor)

text \<open>
  C10, an instance: against a three-bedroom home, a studio recorded with 0 bedrooms gets
  no bedroom adjustment, where one bedroom would give 30000 dollars.
\<close>

theorem zero_field_treated_as_absent_witness:
  "map_of (calculate_adjustments 0 family_home (family_home\<lparr>bedrooms := Some 0\<rparr>)
     (sold_sale 400000 0)) ''bedroom_adjustment'' = None \<and>
   map_of (calculate_adjustments 0 family_home (family_home\<lparr>bedrooms := Some 1\<rparr>)
     (sold_sale 400000 0)) ''bedroom_adjustment'' = Some 30000"
  using zero_field_treated_as_absent[of family_home family_home 0 "sold_sale 400000 0"]
  by (simp add: category_lookup calculate_bedroom_adjustment_def truthy_int_def
      bedroom_adjustment_def family_home_def)

section \<open>The time adjustment\<close>

lemma time_adjustment_of_days:
  "calculate_time_adjustment now sale =
     (if timedelta_days (now - sale_date sale) \<le> 90 then 0
      else sale_price sale * min (2 / 100) ((1 / 100) * (of_int (timedelta_days (now - sale_date sale) - 90) / 90)))"
  by (simp add: calculate_time_adjustment_def Let_def)

lemma time_rate_mono:
  fixes d d' :: int
  assumes "d \<le> d'"
  shows "(if d \<le> 90 then 0 else min (2 / 100) ((1 / 100) * (of_int (d - 90) / 90)))
       \<le> (if d' \<le> 90 then (0::real) else min (2 / 100) ((1 / 100) * (of_int (d' - 90) / 90)))"
  using assms by (auto simp: min_def)

text \<open>
  C8. For a sale with a positive price, the time adjustment is 0 when the sale is at most
  90 days old, is never negative, never exceeds 2 percent of the sale price, and does not
  decrease when the age of the sale in days grows (at the same price).
\<close>

theorem time_adjustment_properties:
  assumes "0 < sale_price sale"
  shows "(timedelta_days (now - sale_date sale) \<le> 90 \<longrightarrow> calculate_time_adjustment now sale = 0) \<and>
         0 \<le> calculate_time_adjustment now sale \<and>
         calculate_time_adjustment now sale \<le> (2 / 100) * sale_price sale \<and>
         (\<forall>now' (sale' :: PropertySale). sale_price sale' = sale_price sale \<and>
             timedelta_days (now - sale_date sale) \<le> timedelta_days (now' - sale_date sale')
             \<longrightarrow> calculate_time_adjustment now sale \<le> calculate_time_adjustment now' sale')"
proof (intro conjI allI impI)
  assume "timedelta_days (now - sale_date sale) \<le> 90"
  then show "calculate_time_adjustment now sale = 0"
    by (simp add: time_adjustment_of_days)
next
  show "0 \<le> calculate_time_adjustment now sale"
    using assms by (simp add: time_adjustment_of_days)
next
  have "min (2 / 100) ((1 / 100) * (of_int (timedelta_days (now - sale_date sale) - 90) / 90)) \<le> (2 / 100 :: real)"
    by simp
  from mult_left_mono[OF this, of "sale_price sale"] assms
  show "calculate_time_adjustment now sale \<le> (2 / 100) * sale_price sale"
    by (simp add: time_adjustment_of_days mult.commute)
next
  fix now' :: datetime and sale' :: PropertySale
  assume h: "sale_price sale' = sale_price sale \<and>
      timedelta_days (now - sale_date sale) \<le> timedelta_days (now' - sale_date sale')"
  have eq: "calculate_time_adjustment n x = sale_price x *
      (if timedelta_days (n - sale_date x) \<le> 90 then 0
       else min (2 / 100) ((1 / 100) * (of_int (timedelta_days (n - sale_date x) - 90) / 90)))" for n x
    by (simp add: time_adjustment_of_days)
  from h time_rate_mono[of "timedelta_days (now - sale_date sale)" "timedelta_days (now' - sale_date sale')"]
  show "calculate_time_adjustment now sale \<le> calculate_time_adjustment now' sale'"
    unfolding eq using assms by (simp add: mult_left_mono)
qed

text \<open>
  C8, an instance: a 400000 dollar sale has no time adjustment at 90 days, 4000/9
  dollars at 100 days and the cap of 8000 dollars at 400 days.
\<close>

theorem time_adjustment_properties_witness:
  "0 < sale_price (sold_sale 400000 0) \<and>
   calculate_time_adjustment (timedelta_of_days 90) (sold_sale 400000 0) = 0 \<and>
   0 \<le> calculate_time_adjustment (timedelta_of_days 100) (sold_sale 400000 0) \<and>
   calculate_time_adjustment (timedelta_of_days 100) (sold_sale 400000 0)
     \<le> (2 / 100) * sale_price (sold_sale 400000 0) \<and>
   calculate_time_adjustment (timedelta_of_days 100) (sold_sale 400000 0)
     \<le> calculate_time_adjustment (timedelta_of_days 400) (sold_sale 400000 0)"
proof -
  have p: "0 < sale_price (sold_sale 400000 0)"
    by (simp add: sold_sale_def)
  have d: "timedelta_days (timedelta_of_days 90 - sale_date (sold_sale 400000 0)) \<le> 90"
    "timedelta_days (timedelta_of_days 100 - sale_date (sold_sale 400000 0))
       \<le> timedelta_days (timedelta_of_days 400 - sale_date (sold_sale 400000 0))"
    by (simp_all add: sold_sale_def timedelta_days_def timedelta_of_days_def
        microseconds_per_day_def)
  from time_adjustment_properties[OF p, of "timedelta_of_days 90"]
    time_adjustment_properties[OF p, of "timedelta_of_days 100"] p d
  show ?thesis by blast
qed

section \<open>The comparable finder\<close>

lemma score_value: "calculate_similarity_score s c = Inr (similarity_value s c)"
  by (simp only: score_factors similarity_value_def)

lemma score_comps_eq: "score_comps s rows = Inr (scored_rows s rows)"
  by (induction rows) (simp_all add: scored_rows_def score_value)

lemma find_comparables_eq:
  "find_comparables now database s n =
     Inr (slice_to n (sort_reverse comp_score
            (scored_rows s (filter (query_filter now s) database))))"
  by (simp add: find_comparables_def score_comps_eq)

lemma row_of_scored_rows: "map row_of (scored_rows s rows) = rows"
  by (induction rows) (simp_all add: scored_rows_def row_of_def)

lemma sort_reverse_sorted: "sorted_wrt (\<lambda>a b. f b \<le> f a) (sort_reverse f xs)"
proof -
  have "sorted (map (\<lambda>x. - f x) (sort_key (\<lambda>x. - f x) xs))"
    by (rule sorted_sort_key)
  then show ?thesis
    by (simp add: sort_reverse_def sorted_map)
qed

lemma sort_reverse_stable:
  "filter (\<lambda>x. f x = k) (sort_reverse f xs) = filter (\<lambda>x. f x = k) xs"
  using sort_key_stable[of "\<lambda>x. - f x" "- k" xs] by (simp add: sort_reverse_def)

lemma set_sort_reverse: "set (sort_reverse f xs) = set xs"
  by (simp add: sort_reverse_def)

lemma slice_to_nonneg: "0 \<le> n \<Longrightarrow> slice_to n xs = take (nat n) xs"
  by (simp add: slice_to_def)

lemma set_slice_to: "set (slice_to n xs) \<subseteq> set xs"
  by (simp add: slice_to_def set_take_subset)

lemma find_comparables_members:
  assumes "find_comparables now database s n = Inr res" and "x \<in> set res"
  shows "row_of x \<in> set database \<and> query_filter now s (row_of x) \<and>
         comp_score x = similarity_value s (fst x)"
proof -
  from assms have "x \<in> set (slice_to n (sort_reverse comp_score
      (scored_rows s (filter (query_filter now s) database))))"
    by (simp add: find_comparables_eq)
  then have "x \<in> set (sort_reverse comp_score
      (scored_rows s (filter (query_filter now s) database)))"
    by (rule subsetD[OF set_slice_to])
  then have "x \<in> set (scored_rows s (filter (query_filter now s) database))"
    by (simp only: set_sort_reverse)
  then show ?thesis
    by (auto simp: scored_rows_def row_of_def comp_score_def)
qed

text \<open>
  C6. With a non-negative \<open>max_results\<close>, the finder returns a sequence that is
  non-increasing in score, in which candidates of equal score keep the order they have
  among the eligible rows of the pool, of at most \<open>max_results\<close> elements, and empty
  when no row is eligible.
\<close>

theorem find_comparables_ranked:
  assumes "0 \<le> max_results"
  shows "\<exists>res. find_comparables now database s max_results = Inr res \<and>
           sorted_wrt (\<lambda>a b. comp_score b \<le> comp_score a) res \<and>
           (\<forall>k. prefix (filter (\<lambda>x. comp_score x = k) res)
                  (filter (\<lambda>x. comp_score x = k)
                     (scored_rows s (filter (query_filter now s) database)))) \<and>
           length res \<le> nat max_results \<and>
           (filter (query_filter now s) database = [] \<longrightarrow> res = [])"
proof -
  define scored where "scored = scored_rows s (filter (query_filter now s) database)"
  define res where "res = take (nat max_results) (sort_reverse comp_score scored)"
  have eq: "find_comparables now database s max_results = Inr res"
    using assms by (simp add: find_comparables_eq slice_to_nonneg res_def scored_def)
  have srt: "sorted_wrt (\<lambda>a b. comp_score b \<le> comp_score a) res"
    unfolding res_def by (intro sorted_wrt_take sort_reverse_sorted)
  have stable: "prefix (filter (\<lambda>x. comp_score x = k) res)
      (filter (\<lambda>x. comp_score x = k) scored)" for k
  proof -
    have "prefix (filter (\<lambda>x. comp_score x = k) res)
        (filter (\<lambda>x. comp_score x = k) (sort_reverse comp_score scored))"
      unfolding res_def by (intro filter_mono_prefix take_is_prefix)
    then show ?thesis by (simp only: sort_reverse_stable)
  qed
  have len: "length res \<le> nat max_results"
    by (simp add: res_def)
  have empty: "res = []" if "filter (query_filter now s) database = []"
    using that by (simp add: res_def scored_def scored_rows_def sort_reverse_def)
  show ?thesis
  proof (intro exI[of _ res] conjI allI impI)
    show "find_comparables now database s max_results = Inr res" by (rule eq)
    show "sorted_wrt (\<lambda>a b. comp_score b \<le> comp_score a) res" by (rule srt)
    show "prefix (filter (\<lambda>x. comp_score x = k) res)
        (filter (\<lambda>x. comp_score x = k)
           (scored_rows s (filter (query_filter now s) database)))" for k
      using stable[of k] by (simp only: scored_def)
    show "length res \<le> nat max_results" by (rule len)
    show "res = []" if "filter (query_filter now s) database = []"
      using that by (rule empty)
  qed
qed

text \<open>
  Every returned candidate passed the filter of the query: it is a sold sale, dated on
  or after the cutoff of 180 days before now, and its property is not the subject when
  the subject's key is neither missing nor 0.
\<close>

lemma find_comparables_eligible:
  assumes "find_comparables now database s n = Inr res" and "x \<in> set res"
  shows "sale_type (fst (snd x)) = Some ''sold'' \<and>
         now - timedelta_of_days 180 \<le> sale_date (fst (snd x)) \<and>
         (truthy_int (prop_id s) \<longrightarrow> prop_id (fst x) \<noteq> prop_id s)"
proof -
  from find_comparables_members[OF assms] have q: "query_filter now s (row_of x)"
    by (rule conjunct1[OF conjunct2])
  from q have "sale_type (fst (snd x)) = Some ''sold''"
    and "now - timedelta_of_days 180 \<le> sale_date (fst (snd x))"
    by (simp_all add: query_filter_def row_of_def Let_def)
  moreover from q have "prop_id (fst x) \<noteq> prop_id s" if "truthy_int (prop_id s)"
    using that by (auto simp: query_filter_def row_of_def Let_def truthy_int_def split: option.splits)
  ultimately show ?thesis by simp
qed

lemma home_scores:
  "similarity_value family_home (family_home\<lparr>prop_id := v\<rparr>) = 80"
  "similarity_value family_home (family_home\<lparr>prop_id := v, square_footage := Some 2000\<rparr>) = 77"
  "similarity_value (family_home\<lparr>prop_id := v\<rparr>) (family_home\<lparr>prop_id := w\<rparr>) = 80"
  by (simp_all add: similarity_value_def factor_defs truthy_int_def truthy_float_def family_home_def)

lemma recent_sale_eligible:
  "query_filter (timedelta_of_days 10) s (p, sold_sale price 0) =
     (if truthy_int (prop_id s)
      then (case prop_id p of None \<Rightarrow> False | Some i \<Rightarrow> i \<noteq> the (prop_id s))
      else True)"
  by (simp add: query_filter_def Let_def sold_sale_def timedelta_of_days_def microseconds_per_day_def)

lemma old_sale_not_eligible:
  "\<not> query_filter (timedelta_of_days 10) s (p, sold_sale price (- timedelta_of_days 400))"
  by (simp add: query_filter_def Let_def sold_sale_def timedelta_of_days_def microseconds_per_day_def)

text \<open>
  C7, at a subject whose primary key is 0. The guard \<open>if subject_property.id\<close> is
  false for the key 0, so the subject's own row is not excluded: with the subject's
  recent sale as the only row of the pool, the finder returns the subject itself.
\<close>

theorem subject_with_id_zero_is_its_own_comparable:
  "find_comparables (timedelta_of_days 10) [subject_row] (fst subject_row) 6 =
     Inr [(fst subject_row, snd subject_row, 80)]"
  by (simp add: find_comparables_eq subject_row_def recent_sale_eligible scored_rows_def
      home_scores sort_reverse_def slice_to_def truthy_int_def)


lemma three_candidates:
  "find_comparables (timedelta_of_days 10)
     [(family_home\<lparr>prop_id := Some 8, square_footage := Some 2000\<rparr>, sold_sale 410000 0),
      (family_home\<lparr>prop_id := Some 9\<rparr>, sold_sale 400000 0),
      (family_home\<lparr>prop_id := Some 10\<rparr>, sold_sale 390000 0),
      (family_home\<lparr>prop_id := Some 11\<rparr>, sold_sale 380000 (- timedelta_of_days 400))]
     family_home 6 =
   Inr [(family_home\<lparr>prop_id := Some 9\<rparr>, sold_sale 400000 0, 80),
        (family_home\<lparr>prop_id := Some 10\<rparr>, sold_sale 390000 0, 80),
        (family_home\<lparr>prop_id := Some 8, square_footage := Some 2000\<rparr>, sold_sale 410000 0, 77)]"
proof -
  have id: "prop_id family_home = Some 7"
    by (simp add: family_home_def)
  show ?thesis
    by (simp add: find_comparables_eq recent_sale_eligible old_sale_not_eligible scored_rows_def
        home_scores sort_reverse_def slice_to_def truthy_int_def comp_score_def id)
qed


text \<open>
  C6, an instance: of four candidates, the one sold 410 days ago is not eligible; the two
  that score 80 come first, in the order of the pool, and the one that scores 77 last.
\<close>

theorem find_comparables_ranked_witness:
  "(0 :: int) \<le> 6 \<and>
   (\<exists>res. find_comparables (timedelta_of_days 10)
        [(family_home\<lparr>prop_id := Some 8, square_footage := Some 2000\<rparr>, sold_sale 410000 0),
         (family_home\<lparr>prop_id := Some 9\<rparr>, sold_sale 400000 0),
         (family_home\<lparr>prop_id := Some 10\<rparr>, sold_sale 390000 0),
         (family_home\<lparr>prop_id := Some 11\<rparr>, sold_sale 380000 (- timedelta_of_days 400))]
        family_home 6 = Inr res \<and>
      sorted_wrt (\<lambda>a b. comp_score b \<le> comp_score a) res \<and>
      length res \<le> nat 6 \<and>
      map (\<lambda>x. prop_id (fst x)) res = [Some 9, Some 10, Some 8])"
proof -
  define pool where "pool =
     [(family_home\<lparr>prop_id := Some 8, square_footage := Some 2000\<rparr>, sold_sale 410000 0),
      (family_home\<lparr>prop_id := Some 9\<rparr>, sold_sale 400000 0),
      (family_home\<lparr>prop_id := Some 10\<rparr>, sold_sale 390000 0),
      (family_home\<lparr>prop_id := Some 11\<rparr>, sold_sale 380000 (- timedelta_of_days 400))]"
  have h: "(0 :: int) \<le> 6" by simp
  from find_comparables_ranked[OF h, of "timedelta_of_days 10" pool family_home]
  obtain res where res: "find_comparables (timedelta_of_days 10) pool family_home 6 = Inr res"
    and srt: "sorted_wrt (\<lambda>a b. comp_score b \<le> comp_score a) res"
    and len: "length res \<le> nat 6"
    by (elim exE conjE)
  from res have "res = [(family_home\<lparr>prop_id := Some 9\<rparr>, sold_sale 400000 0, 80),
        (family_home\<lparr>prop_id := Some 10\<rparr>, sold_sale 390000 0, 80),
        (family_home\<lparr>prop_id := Some 8, square_footage := Some 2000\<rparr>, sold_sale 410000 0, 77)]"
    unfolding pool_def by (simp only: three_candidates sum.inject)
  then have ids: "map (\<lambda>x. prop_id (fst x)) res = [Some 9, Some 10, Some 8]"
    by simp
  show ?thesis
    unfolding pool_def[symmetric]
    by (intro conjI exI[of _ res] h res srt len ids)
qed

section \<open>The value estimate\<close>

lemma py_int_nonneg: "0 \<le> x \<Longrightarrow> py_int x = \<lfloor>x\<rfloor>"
  by (simp add: py_int_def)

lemma fold_min_Min: "fold min ps p = Min (set (p # ps))" for p :: real
  by (simp only: Min.set_eq_fold)

lemma fold_max_Max: "fold max ps p = Max (set (p # ps))" for p :: real
  by (simp only: Max.set_eq_fold)

lemma sum_list_lower: "\<forall>x\<in>set xs. m \<le> x \<Longrightarrow> of_nat (length xs) * m \<le> sum_list xs"
  for m :: real
  by (induction xs) (simp_all add: algebra_simps)

lemma sum_list_upper: "\<forall>x\<in>set xs. x \<le> m \<Longrightarrow> sum_list xs \<le> of_nat (length xs) * m"
  for m :: real
  by (induction xs) (simp_all add: algebra_simps)

lemma mean_between:
  fixes ps :: "real list"
  assumes "ps \<noteq> []"
  shows "Min (set ps) \<le> sum_list ps / of_nat (length ps)"
    and "sum_list ps / of_nat (length ps) \<le> Max (set ps)"
proof -
  have n: "0 < (of_nat (length ps) :: real)" using assms by simp
  have "of_nat (length ps) * Min (set ps) \<le> sum_list ps"
    by (rule sum_list_lower) simp
  then show "Min (set ps) \<le> sum_list ps / of_nat (length ps)"
    using n by (simp add: pos_le_divide_eq mult.commute)
  have "sum_list ps \<le> of_nat (length ps) * Max (set ps)"
    by (rule sum_list_upper) simp
  then show "sum_list ps / of_nat (length ps) \<le> Max (set ps)"
    using n by (simp add: pos_divide_le_eq mult.commute)
qed

lemma estimate_value_nonempty:
  assumes "ps \<noteq> []"
  shows "estimate_value ps =
     \<lparr>low = py_int (Min (set ps) * (98 / 100)),
      high = py_int (Max (set ps) * (102 / 100)),
      most_likely = py_int (sum_list ps / of_nat (length ps))\<rparr>"
proof -
  from assms obtain p qs where ps: "ps = p # qs" by (cases ps) auto
  show ?thesis
    unfolding ps estimate_value_def fold_min_Min fold_max_Max by (simp add: Let_def)
qed

text \<open>
  C2 (as the code has it). For a non-empty list of adjusted prices none of which is
  negative, low is the floor of 0.98 times the minimum, high the floor of 1.02 times the
  maximum, most-likely the floor of the mean, and low \<open>\<le>\<close> most-likely \<open>\<le>\<close> high.
\<close>

theorem estimate_value_ordered:
  assumes "ps \<noteq> []" and "\<forall>p\<in>set ps. 0 \<le> p"
  shows "low (estimate_value ps) = \<lfloor>Min (set ps) * (98 / 100)\<rfloor> \<and>
         high (estimate_value ps) = \<lfloor>Max (set ps) * (102 / 100)\<rfloor> \<and>
         most_likely (estimate_value ps) = \<lfloor>sum_list ps / of_nat (length ps)\<rfloor> \<and>
         low (estimate_value ps) \<le> most_likely (estimate_value ps) \<and>
         most_likely (estimate_value ps) \<le> high (estimate_value ps)"
proof -
  have mn: "0 \<le> Min (set ps)" using assms by simp
  have "Min (set ps) \<le> Max (set ps)" using assms(1) by simp
  with mn have mx: "0 \<le> Max (set ps)" by linarith
  have mean: "Min (set ps) \<le> sum_list ps / of_nat (length ps)"
      "sum_list ps / of_nat (length ps) \<le> Max (set ps)"
    using mean_between[OF assms(1)] by simp_all
  from mn mean have mean0: "0 \<le> sum_list ps / of_nat (length ps)" by linarith
  have lo: "Min (set ps) * (98 / 100) \<le> sum_list ps / of_nat (length ps)"
    using mn mean by linarith
  have hi: "sum_list ps / of_nat (length ps) \<le> Max (set ps) * (102 / 100)"
    using mx mean by linarith
  have l: "low (estimate_value ps) = \<lfloor>Min (set ps) * (98 / 100)\<rfloor>"
    using mn by (simp add: estimate_value_nonempty[OF assms(1)] py_int_nonneg)
  have h: "high (estimate_value ps) = \<lfloor>Max (set ps) * (102 / 100)\<rfloor>"
    using mx by (simp add: estimate_value_nonempty[OF assms(1)] py_int_nonneg)
  have m: "most_likely (estimate_value ps) = \<lfloor>sum_list ps / of_nat (length ps)\<rfloor>"
    using mean0 by (simp add: estimate_value_nonempty[OF assms(1)] py_int_nonneg)
  show ?thesis
    unfolding l h m using floor_mono[OF lo] floor_mono[OF hi] by simp
qed

lemma estimate_single_negative:
  "estimate_value [- 140000] = \<lparr>low = - 137200, high = - 142800, most_likely = - 140000\<rparr>"
  by (simp add: estimate_value_def py_int_def)

section \<open>The analysis\<close>

lemma adjustment_total_processed:
  "\<exists>t. adjustment_total (fst (process_comparable now s x)) = Inr t"
  by (simp add: adjustment_total_def process_comparable_def Let_def total_entry)

lemma sale_price_processed:
  "info_sale_price (fst (process_comparable now s x)) = sale_price (fst (snd x))"
  by (simp add: process_comparable_def Let_def)

lemma sum_adjustment_ratios_total:
  assumes "\<forall>e\<in>set data. info_sale_price e \<noteq> 0 \<and> (\<exists>t. adjustment_total e = Inr t)"
  shows "\<exists>r. sum_adjustment_ratios acc data = Inr r"
  using assms
proof (induction data arbitrary: acc)
  case Nil
  show ?case by simp
next
  case (Cons e data)
  then obtain t where t: "adjustment_total e = Inr t" and p: "info_sale_price e \<noteq> 0"
    by auto
  from Cons.prems have "\<forall>e\<in>set data. info_sale_price e \<noteq> 0 \<and> (\<exists>t. adjustment_total e = Inr t)"
    by simp
  from Cons.IH[OF this] show ?case
    by (simp add: t p py_div_def)
qed

lemma adjustment_totals_total:
  assumes "\<forall>e\<in>set data. \<exists>t. adjustment_total e = Inr t"
  shows "\<exists>ts. adjustment_totals data = Inr ts \<and> length ts = length data"
  using assms
proof (induction data)
  case Nil
  show ?case by simp
next
  case (Cons e data)
  then obtain t where t: "adjustment_total e = Inr t" by auto
  from Cons obtain ts where ts: "adjustment_totals data = Inr ts" "length ts = length data"
    by auto
  show ?case by (simp add: t ts)
qed

lemma summarize_total:
  assumes "data \<noteq> []" and "\<forall>e\<in>set data. \<exists>t. adjustment_total e = Inr t"
  shows "\<exists>sm. summarize data = Inr sm"
proof -
  from adjustment_totals_total[OF assms(2)] obtain ts where
    ts: "adjustment_totals data = Inr ts" "length ts = length data" by blast
  with assms(1) obtain t rest where c: "ts = t # rest" by (cases ts) auto
  from assms(1) have n: "(of_nat (length data) :: real) \<noteq> 0" by simp
  show ?thesis
    unfolding summarize_def ts(1) py_div_def py_min_def py_max_def c
    using n by simp
qed

lemma perform_cma_analysis_result:
  assumes find: "find_comparables now database s 6 = Inr comps"
    and ne: "comps \<noteq> []"
    and prices: "\<forall>x\<in>set comps. sale_price (fst (snd x)) \<noteq> 0"
  shows "\<exists>r. perform_cma_analysis now database s = Inr r \<and>
           estimated_value r =
             estimate_value (map snd (map (process_comparable now s) comps)) \<and>
           comparables r = map fst (map (process_comparable now s) comps)"
proof -
  define data where "data = map fst (map (process_comparable now s) comps)"
  have tot: "\<forall>e\<in>set data. \<exists>t. adjustment_total e = Inr t"
    by (auto simp: data_def adjustment_total_processed)
  have pr: "\<forall>e\<in>set data. info_sale_price e \<noteq> 0 \<and> (\<exists>t. adjustment_total e = Inr t)"
    using prices by (auto simp: data_def adjustment_total_processed sale_price_processed)
  have dne: "data \<noteq> []" using ne by (simp add: data_def)
  from sum_adjustment_ratios_total[OF pr] obtain rs where
    rs: "sum_adjustment_ratios 0 data = Inr rs" by blast
  from summarize_total[OF dne tot] obtain sm where sm: "summarize data = Inr sm" by blast
  have n: "(of_nat (length data) :: real) \<noteq> 0" using dne by simp
  show ?thesis
    unfolding perform_cma_analysis_def find sum.case if_not_P[OF ne] Let_def
    unfolding data_def[symmetric] rs sm sum.case
    using n by (simp add: py_div_def data_def)
qed

text \<open>
  C9. When the finder returns no comparable, the analysis returns (and does not raise)
  the fixed estimate 350000 / 450000 / 400000 with confidence 0.3 and one synthetic
  entry, addressed ``No comparables found - using estimate''.
\<close>

theorem empty_pool_fallback:
  assumes "find_comparables now database s 6 = Inr []"
  shows "\<exists>r. perform_cma_analysis now database s = Inr r \<and>
           estimated_value r = \<lparr>low = 350000, high = 450000, most_likely = 400000\<rparr> \<and>
           confidence_score r = 3 / 10 \<and>
           map info_address (comparables r) = [''No comparables found - using estimate''] \<and>
           map info_sale_price (comparables r) = [400000] \<and>
           map info_adjusted_price (comparables r) = [400000] \<and>
           map info_adjustments (comparables r) = [[(''total'', 0)]] \<and>
           summary r = None"
proof -
  have "perform_cma_analysis now database s = Inr (fallback_analysis s)"
    by (simp add: perform_cma_analysis_def assms)
  then show ?thesis
    by (simp add: fallback_analysis_def)
qed

lemma no_rows_no_comparables: "find_comparables now [] s n = Inr []"
  by (simp add: find_comparables_eq scored_rows_def sort_reverse_def slice_to_def)

text \<open>C9, an instance: the analysis over an empty database.\<close>

theorem empty_pool_fallback_witness:
  "find_comparables 0 [] family_home 6 = Inr [] \<and>
   (\<exists>r. perform_cma_analysis 0 [] family_home = Inr r \<and>
      estimated_value r = \<lparr>low = 350000, high = 450000, most_likely = 400000\<rparr> \<and>
      confidence_score r = 3 / 10 \<and> length (comparables r) = 1)"
proof -
  have h: "find_comparables 0 [] family_home 6 = Inr []"
    by (rule no_rows_no_comparables)
  from empty_pool_fallback[OF h] obtain r where
    r: "perform_cma_analysis 0 [] family_home = Inr r"
      "estimated_value r = \<lparr>low = 350000, high = 450000, most_likely = 400000\<rparr>"
      "confidence_score r = 3 / 10"
      "map info_address (comparables r) = [''No comparables found - using estimate'']"
    by (elim exE conjE)
  from r(4) have "length (comparables r) = 1"
    using length_map[of info_address "comparables r"] by simp
  with h r(1-3) show ?thesis
    by (intro conjI exI[of _ r])
qed


section \<open>Worked analyses\<close>

lemma sale_within_window:
  "d \<le> 180 \<Longrightarrow> query_filter (timedelta_of_days d) s (p, sold_sale price 0) =
     (if truthy_int (prop_id s)
      then (case prop_id p of None \<Rightarrow> False | Some i \<Rightarrow> i \<noteq> the (prop_id s))
      else True)"
  by (simp add: query_filter_def Let_def sold_sale_def timedelta_of_days_def microseconds_per_day_def)

lemma plain_score: "similarity_value plain_property plain_property = 0"
  by (simp add: similarity_value_def factor_defs truthy_int_def truthy_float_def plain_property_def)

lemma plain_single:
  "d \<le> 180 \<Longrightarrow>
   find_comparables (timedelta_of_days d) [(plain_property, sold_sale price 0)] plain_property 6 =
     Inr [(plain_property, sold_sale price 0, 0)]"
  by (simp add: find_comparables_eq sale_within_window scored_rows_def plain_score
      sort_reverse_def slice_to_def)
     (simp add: truthy_int_def plain_property_def)

lemma plain_components:
  "calculate_size_adjustment plain_property plain_property = 0"
  "calculate_bedroom_adjustment plain_property plain_property = 0"
  "calculate_bathroom_adjustment plain_property plain_property = 0"
  "calculate_age_adjustment plain_property plain_property = 0"
  "calculate_lot_size_adjustment plain_property plain_property = 0"
  by (simp_all add: component_defs truthy_int_def truthy_float_def plain_property_def)

lemma time_adjustment_values:
  "calculate_time_adjustment (timedelta_of_days 10) (sold_sale price 0) = 0"
  "calculate_time_adjustment (timedelta_of_days 100) (sold_sale 400000 0) = 4000 / 9"
  by (simp_all add: calculate_time_adjustment_def timedelta_days_def timedelta_of_days_def
      microseconds_per_day_def sold_sale_def)

lemma plain_adjustments_10:
  "calculate_adjustments (timedelta_of_days 10) plain_property plain_property (sold_sale price 0)
     = [(''total'', 0)]"
  by (simp add: calculate_adjustments_def record_adjustment_def plain_components
      time_adjustment_values py_int_def)

lemma sold_sale_fields:
  "sale_price (sold_sale price date) = price"
  "sale_date (sold_sale price date) = date"
  "sale_type (sold_sale price date) = Some ''sold''"
  by (simp_all add: sold_sale_def)

lemma plain_price_10:
  "snd (process_comparable (timedelta_of_days 10) plain_property
          (plain_property, sold_sale price 0, 0)) = price"
  by (simp add: process_comparable_def Let_def plain_adjustments_10 calculate_adjusted_price_def
      sold_sale_fields)

lemma plain_price_100:
  "snd (process_comparable (timedelta_of_days 100) plain_property
          (plain_property, sold_sale 400000 0, 0)) = 400444"
  by (simp add: process_comparable_def Let_def adjustments_at_100_days
      calculate_adjusted_price_def sold_sale_fields)

lemma estimate_values:
  "estimate_value [- 100] = \<lparr>low = - 98, high = - 102, most_likely = - 100\<rparr>"
  "estimate_value [400000] = \<lparr>low = 392000, high = 408000, most_likely = 400000\<rparr>"
  "estimate_value [400444] = \<lparr>low = 392435, high = 408452, most_likely = 400444\<rparr>"
  by (simp_all add: estimate_value_def py_int_def)



section \<open>Dependence on the clock\<close>

lemma same_view_filter:
  assumes "same_clock_view now now' database"
  shows "filter (query_filter now s) database = filter (query_filter now' s) database"
proof (rule filter_cong[OF refl])
  fix row assume "row \<in> set database"
  with assms have "(now - timedelta_of_days 180 \<le> sale_date (snd row)) =
      (now' - timedelta_of_days 180 \<le> sale_date (snd row))"
    by (simp add: same_clock_view_def list_all_iff)
  then show "query_filter now s row = query_filter now' s row"
    by (simp add: query_filter_def Let_def)
qed

lemma same_view_process:
  assumes "same_clock_view now now' database" and "row_of x \<in> set database"
  shows "process_comparable now s x = process_comparable now' s x"
proof -
  from assms have "timedelta_days (now - sale_date (fst (snd x))) =
      timedelta_days (now' - sale_date (fst (snd x)))"
    by (auto simp: same_clock_view_def list_all_iff row_of_def)
  then have "calculate_time_adjustment now (fst (snd x)) =
      calculate_time_adjustment now' (fst (snd x))"
    by (simp add: calculate_time_adjustment_def)
  then have "calculate_adjustments now s (fst x) (fst (snd x)) =
      calculate_adjustments now' s (fst x) (fst (snd x))"
    by (intro adjustments_cong refl)
  then show ?thesis
    by (simp add: process_comparable_def)
qed

text \<open>
  C4 (as the code has it). The analysis reads the wall clock: its result is a function
  of the subject, the pool and the current time. Two calls with the same subject and
  pool return the same result when their clock readings put every row of the pool on
  the same side of the 180-day cutoff and give it the same age in whole days.
\<close>

theorem analysis_depends_on_clock_view:
  assumes "same_clock_view now now' database"
  shows "perform_cma_analysis now database s = perform_cma_analysis now' database s"
proof -
  have f: "find_comparables now' database s 6 = find_comparables now database s 6"
    by (simp only: find_comparables_eq same_view_filter[OF assms])
  obtain comps where find: "find_comparables now database s 6 = Inr comps"
    by (simp add: find_comparables_eq)
  have "map (process_comparable now s) comps = map (process_comparable now' s) comps"
  proof (rule map_cong[OF refl])
    fix x assume "x \<in> set comps"
    from find_comparables_members[OF find this] have "row_of x \<in> set database" by simp
    then show "process_comparable now s x = process_comparable now' s x"
      by (rule same_view_process[OF assms])
  qed
  then show ?thesis
    unfolding perform_cma_analysis_def f find sum.case by (simp only:)
qed

text \<open>
  C4, an instance: one microsecond later, ten days after the sale, the analysis is the
  same.
\<close>

theorem analysis_depends_on_clock_view_witness:
  "same_clock_view (timedelta_of_days 10) (timedelta_of_days 10 + 1)
     [(plain_property, sold_sale 400000 0)] \<and>
   perform_cma_analysis (timedelta_of_days 10)
     [(plain_property, sold_sale 400000 0)] plain_property =
   perform_cma_analysis (timedelta_of_days 10 + 1)
     [(plain_property, sold_sale 400000 0)] plain_property"
proof -
  have v: "same_clock_view (timedelta_of_days 10) (timedelta_of_days 10 + 1)
     [(plain_property, sold_sale 400000 0)]"
    by (simp add: same_clock_view_def sold_sale_fields timedelta_of_days_def
        timedelta_days_def microseconds_per_day_def)
  from v analysis_depends_on_clock_view[OF v, of plain_property] show ?thesis
    by (rule conjI)
qed

lemma analysis_at_10_days:
  "\<exists>r. perform_cma_analysis (timedelta_of_days 10)
         [(plain_property, sold_sale 400000 0)] plain_property = Inr r \<and>
       estimated_value r = \<lparr>low = 392000, high = 408000, most_likely = 400000\<rparr>"
proof -
  have find: "find_comparables (timedelta_of_days 10) [(plain_property, sold_sale 400000 0)]
      plain_property 6 = Inr [(plain_property, sold_sale 400000 0, 0)]"
    by (rule plain_single) simp
  have "\<exists>r. perform_cma_analysis (timedelta_of_days 10)
         [(plain_property, sold_sale 400000 0)] plain_property = Inr r \<and>
       estimated_value r = estimate_value (map snd (map (process_comparable
         (timedelta_of_days 10) plain_property) [(plain_property, sold_sale 400000 0, 0)])) \<and>
       comparables r = map fst (map (process_comparable
         (timedelta_of_days 10) plain_property) [(plain_property, sold_sale 400000 0, 0)])"
    by (rule perform_cma_analysis_result[OF find]) (simp_all add: sold_sale_fields)
  then show ?thesis
    by (auto simp: plain_price_10 estimate_values)
qed

lemma analysis_at_100_days:
  "\<exists>r. perform_cma_analysis (timedelta_of_days 100)
         [(plain_property, sold_sale 400000 0)] plain_property = Inr r \<and>
       estimated_value r = \<lparr>low = 392435, high = 408452, most_likely = 400444\<rparr>"
proof -
  have find: "find_comparables (timedelta_of_days 100) [(plain_property, sold_sale 400000 0)]
      plain_property 6 = Inr [(plain_property, sold_sale 400000 0, 0)]"
    by (rule plain_single) simp
  have "\<exists>r. perform_cma_analysis (timedelta_of_days 100)
         [(plain_property, sold_sale 400000 0)] plain_property = Inr r \<and>
       estimated_value r = estimate_value (map snd (map (process_comparable
         (timedelta_of_days 100) plain_property) [(plain_property, sold_sale 400000 0, 0)])) \<and>
       comparables r = map fst (map (process_comparable
         (timedelta_of_days 100) plain_property) [(plain_property, sold_sale 400000 0, 0)])"
    by (rule perform_cma_analysis_result[OF find]) (simp_all add: sold_sale_fields)
  then show ?thesis
    by (auto simp: plain_price_100 estimate_values)
qed

text \<open>
  C4 (as stated) fails: the same subject and the same pool, analysed 10 days and 100
  days after the sale, give different results (most-likely 400000 and 400444).
\<close>

theorem same_inputs_different_results_counterexample:
  "perform_cma_analysis (timedelta_of_days 10)
     [(plain_property, sold_sale 400000 0)] plain_property \<noteq>
   perform_cma_analysis (timedelta_of_days 100)
     [(plain_property, sold_sale 400000 0)] plain_property"
proof
  assume eq: "perform_cma_analysis (timedelta_of_days 10)
     [(plain_property, sold_sale 400000 0)] plain_property =
   perform_cma_analysis (timedelta_of_days 100)
     [(plain_property, sold_sale 400000 0)] plain_property"
  from analysis_at_10_days obtain r where r: "perform_cma_analysis (timedelta_of_days 10)
         [(plain_property, sold_sale 400000 0)] plain_property = Inr r"
       "estimated_value r = \<lparr>low = 392000, high = 408000, most_likely = 400000\<rparr>"
    by (elim exE conjE)
  from analysis_at_100_days obtain r' where r': "perform_cma_analysis (timedelta_of_days 100)
         [(plain_property, sold_sale 400000 0)] plain_property = Inr r'"
       "estimated_value r' = \<lparr>low = 392435, high = 408452, most_likely = 400444\<rparr>"
    by (elim exE conjE)
  from eq r(1) r'(1) have "r = r'" by simp
  with r(2) r'(2) show False by simp
qed

section \<open>The estimate on concrete prices\<close>

text \<open>
  C2, an instance: for the adjusted prices 400000 and 410000 the estimate is
  392000 / 405000 / 418200.
\<close>

theorem estimate_value_ordered_witness:
  "[400000, 410000 :: real] \<noteq> [] \<and>
   low (estimate_value [400000, 410000]) = 392000 \<and>
   most_likely (estimate_value [400000, 410000]) = 405000 \<and>
   high (estimate_value [400000, 410000]) = 418200 \<and>
   low (estimate_value [400000, 410000]) \<le> most_likely (estimate_value [400000, 410000]) \<and>
   most_likely (estimate_value [400000, 410000]) \<le> high (estimate_value [400000, 410000])"
proof -
  have ne: "[400000, 410000 :: real] \<noteq> []" by simp
  have pos: "\<forall>p\<in>set [400000, 410000 :: real]. 0 \<le> p" by simp
  from estimate_value_ordered[OF ne pos] ne show ?thesis
    by simp
qed

lemma small_home_scores:
  "similarity_value (family_home\<lparr>square_footage := Some 500\<rparr>)
     (family_home\<lparr>prop_id := Some 8, square_footage := Some 5000\<rparr>) = 53"
  by (simp add: similarity_value_def factor_defs truthy_int_def truthy_float_def family_home_def)

lemma small_home_single:
  "find_comparables (timedelta_of_days 10)
     [(family_home\<lparr>prop_id := Some 8, square_footage := Some 5000\<rparr>, sold_sale 400000 0)]
     (family_home\<lparr>square_footage := Some 500\<rparr>) 6 =
   Inr [(family_home\<lparr>prop_id := Some 8, square_footage := Some 5000\<rparr>, sold_sale 400000 0, 53)]"
proof -
  have id: "prop_id family_home = Some 7"
    by (simp add: family_home_def)
  show ?thesis
    by (simp add: find_comparables_eq sale_within_window scored_rows_def small_home_scores
        sort_reverse_def slice_to_def truthy_int_def id)
qed

lemma small_home_components:
  "calculate_size_adjustment (family_home\<lparr>square_footage := Some 500\<rparr>)
     (family_home\<lparr>prop_id := Some 8, square_footage := Some 5000\<rparr>) = - 540000"
  "calculate_bedroom_adjustment (family_home\<lparr>square_footage := Some 500\<rparr>)
     (family_home\<lparr>prop_id := Some 8, square_footage := Some 5000\<rparr>) = 0"
  "calculate_bathroom_adjustment (family_home\<lparr>square_footage := Some 500\<rparr>)
     (family_home\<lparr>prop_id := Some 8, square_footage := Some 5000\<rparr>) = 0"
  "calculate_age_adjustment (family_home\<lparr>square_footage := Some 500\<rparr>)
     (family_home\<lparr>prop_id := Some 8, square_footage := Some 5000\<rparr>) = 0"
  "calculate_lot_size_adjustment (family_home\<lparr>square_footage := Some 500\<rparr>)
     (family_home\<lparr>prop_id := Some 8, square_footage := Some 5000\<rparr>) = 0"
  by (simp_all add: component_defs truthy_int_def truthy_float_def family_home_def
      price_per_sqft_base_def)

lemma small_home_adjustments:
  "calculate_adjustments (timedelta_of_days 10) (family_home\<lparr>square_footage := Some 500\<rparr>)
     (family_home\<lparr>prop_id := Some 8, square_footage := Some 5000\<rparr>) (sold_sale 400000 0) =
   [(''size_adjustment'', - 540000), (''total'', - 540000)]"
  by (simp add: calculate_adjustments_def record_adjustment_def small_home_components
      time_adjustment_values py_int_def)

lemma small_home_price:
  "snd (process_comparable (timedelta_of_days 10) (family_home\<lparr>square_footage := Some 500\<rparr>)
     (family_home\<lparr>prop_id := Some 8, square_footage := Some 5000\<rparr>, sold_sale 400000 0, 53))
   = - 140000"
  by (simp add: process_comparable_def Let_def small_home_adjustments
      calculate_adjusted_price_def sold_sale_fields)

text \<open>
  C2 (as stated) fails: a 5000 sq ft comparable sold for 400000 dollars, set against a
  500 sq ft subject, has the adjusted price -140000, and the estimate built from it has
  low -137200 above most-likely -140000 above high -142800.
\<close>

theorem estimate_order_counterexample:
  "(\<exists>r. perform_cma_analysis (timedelta_of_days 10)
      [(family_home\<lparr>prop_id := Some 8, square_footage := Some 5000\<rparr>, sold_sale 400000 0)]
      (family_home\<lparr>square_footage := Some 500\<rparr>) = Inr r \<and>
      estimated_value r = estimate_value [- 140000]) \<and>
   [- 140000 :: real] \<noteq> [] \<and>
   \<not> low (estimate_value [- 140000]) \<le> most_likely (estimate_value [- 140000]) \<and>
   \<not> most_likely (estimate_value [- 140000]) \<le> high (estimate_value [- 140000])"
proof -
  have "\<exists>r. perform_cma_analysis (timedelta_of_days 10)
      [(family_home\<lparr>prop_id := Some 8, square_footage := Some 5000\<rparr>, sold_sale 400000 0)]
      (family_home\<lparr>square_footage := Some 500\<rparr>) = Inr r \<and>
      estimated_value r = estimate_value (map snd (map (process_comparable
         (timedelta_of_days 10) (family_home\<lparr>square_footage := Some 500\<rparr>))
         [(family_home\<lparr>prop_id := Some 8, square_footage := Some 5000\<rparr>,
           sold_sale 400000 0, 53)])) \<and>
      comparables r = map fst (map (process_comparable
         (timedelta_of_days 10) (family_home\<lparr>square_footage := Some 500\<rparr>))
         [(family_home\<lparr>prop_id := Some 8, square_footage := Some 5000\<rparr>,
           sold_sale 400000 0, 53)])"
    by (rule perform_cma_analysis_result[OF small_home_single]) (simp_all add: sold_sale_fields)
  then have "\<exists>r. perform_cma_analysis (timedelta_of_days 10)
      [(family_home\<lparr>prop_id := Some 8, square_footage := Some 5000\<rparr>, sold_sale 400000 0)]
      (family_home\<lparr>square_footage := Some 500\<rparr>) = Inr r \<and>
      estimated_value r = estimate_value [- 140000]"
    by (auto simp: small_home_price)
  then show ?thesis
    by (simp add: estimate_single_negative)
qed

end
